theory Spec2Isabelle
  imports Main
begin

section \<open>JavaScript values\<close>

text \<open>
  A request body is what \<^verbatim>\<open>request.json()\<close> parses: a JSON value.  Numbers are
  modelled as integers (the handlers only test them for truthiness and pass them
  on), strings as byte strings.  A JavaScript value read from an object is a
  \<open>json option\<close>: \<open>None\<close> is \<^verbatim>\<open>undefined\<close>.
\<close>

datatype json =
    JNull
  | JBool bool
  | JNum int
  | JStr string
  | JArr "json list"
  | JObj "(string \<times> json) list"

type_synonym jsval = "json option"

text \<open>\<^verbatim>\<open>!v\<close> is \<open>\<not> truthy v\<close>.\<close>

fun truthy :: "jsval \<Rightarrow> bool" where
  "truthy None = False"
| "truthy (Some JNull) = False"
| "truthy (Some (JBool b)) = b"
| "truthy (Some (JNum n)) = (n \<noteq> 0)"
| "truthy (Some (JStr s)) = (s \<noteq> [])"
| "truthy (Some (JArr xs)) = True"
| "truthy (Some (JObj kvs)) = True"

text \<open>\<^verbatim>\<open>a || b\<close>\<close>

definition js_or :: "jsval \<Rightarrow> jsval \<Rightarrow> jsval" where
  "js_or a b = (if truthy a then a else b)"

text \<open>
  Reading a property of the parsed body, as the destructuring
  \<^verbatim>\<open>const { id, category } = body\<close> does.  In an object a repeated key keeps its
  last value; a boolean, a number, a string or an array has none of the
  properties the handlers read.  Destructuring \<^verbatim>\<open>null\<close> throws, see \<open>parsed_body\<close>.
\<close>

definition fld :: "json \<Rightarrow> string \<Rightarrow> jsval" where
  "fld b k = (case b of JObj kvs \<Rightarrow> map_of (rev kvs) k | _ \<Rightarrow> None)"

definition lower_char :: "char \<Rightarrow> char" where
  "lower_char c =
     (case map_of (zip ''ABCDEFGHIJKLMNOPQRSTUVWXYZ'' ''abcdefghijklmnopqrstuvwxyz'') c of
        Some d \<Rightarrow> d
      | None \<Rightarrow> c)"

text \<open>
  \<^verbatim>\<open>v.toLowerCase()\<close>: only a string has the method; on any other value the call
  throws a TypeError (\<open>None\<close>).
\<close>

definition toLowerCase :: "jsval \<Rightarrow> string option" where
  "toLowerCase v = (case v of Some (JStr s) \<Rightarrow> Some (map lower_char s) | _ \<Rightarrow> None)"

text \<open>\<^verbatim>\<open>['income', 'expense'].includes(x)\<close>\<close>

definition allowed_category :: "string \<Rightarrow> bool" where
  "allowed_category x = (x = ''income'' \<or> x = ''expense'')"

text \<open>\<^verbatim>\<open>s.split(' ')\<close>\<close>

fun split_sp :: "string \<Rightarrow> string list" where
  "split_sp [] = [[]]"
| "split_sp (c # cs) =
     (if c = CHR '' '' then [] # split_sp cs
      else (case split_sp cs of
              [] \<Rightarrow> [[c]]
            | w # ws \<Rightarrow> (c # w) # ws))"

text \<open>\<^verbatim>\<open>xs[1]\<close>, \<open>None\<close> when the array is shorter.\<close>

definition second :: "'a list \<Rightarrow> 'a option" where
  "second xs = (case xs of a # b # rest \<Rightarrow> Some b | _ \<Rightarrow> None)"

definition startsWith :: "string \<Rightarrow> string \<Rightarrow> bool" where
  "startsWith s p = (take (length p) s = p)"


section \<open>Requests, responses, the environment\<close>

text \<open>
  \<open>auth_header\<close> is \<^verbatim>\<open>request.headers.get('Authorization')\<close> (\<open>None\<close> is null);
  \<open>body\<close> is \<open>None\<close> when \<^verbatim>\<open>request.json()\<close> throws.
\<close>

record request =
  auth_header :: "string option"
  body :: "json option"

text \<open>The decoded token: \<^verbatim>\<open>decoded.user_id\<close> and \<^verbatim>\<open>decoded.id\<close>.\<close>

record claims =
  c_user_id :: jsval
  c_id :: jsval

text \<open>
  What the handlers import and this repository does not define.
  \<^item> \<open>jwt_verify\<close>: \<^verbatim>\<open>jwt.verify(token, process.env.JWT_SECRET)\<close>; \<open>None\<close> when it throws.
  \<^item> \<open>bind_undefined\<close>: what \<^verbatim>\<open>db.execute\<close> does with an \<^verbatim>\<open>undefined\<close> parameter:
    \<open>None\<close> when it throws, \<open>Some v\<close> when it binds \<open>v\<close>.
  \<^item> \<open>on_delete_cascade\<close>: whether the schema's foreign keys are declared
    \<^verbatim>\<open>ON DELETE CASCADE\<close>.
\<close>

record env =
  jwt_verify :: "string \<Rightarrow> claims option"
  bind_undefined :: "json option"
  on_delete_cascade :: bool

datatype payload =
    NoData
  | Created "(string \<times> jsval) list"
  | Listed "(string \<times> json) list list"

text \<open>
  The JSON envelope and the status.  The \<^verbatim>\<open>error\<close> text of a 500, the CORS
  headers, and the name that the two "Entity with name ... not found" messages
  quote are left out.
\<close>

record response =
  status :: nat
  message :: string
  data :: payload

definition resp :: "nat \<Rightarrow> string \<Rightarrow> response" where
  "resp st m = \<lparr>status = st, message = m, data = NoData\<rparr>"

definition error500 :: response where
  "error500 = resp 500 ''Something went wrong''"


section \<open>The persistence layer\<close>

text \<open>
  Modelled from the spec: the persistence layer (\<^verbatim>\<open>db\<close>, imported from outside
  the repository), "a relational store reachable via parameterized queries over
  tables users, entities, services, payees, subscriptions".  A table is the list
  of its rows, in the order a \<^verbatim>\<open>SELECT\<close> returns them; a cell is a JSON value
  (\<open>JNull\<close> is SQL NULL) and two cells are compared as they are, with none of
  the conversions of the engine.  The tables have no constraints.  Statements
  never fail except on an \<^verbatim>\<open>undefined\<close> parameter; an insert assigns the next id.
\<close>

record user_row =
  u_sr :: json
  u_username :: json
  u_name :: json
  u_email :: json
  u_phone :: json
  u_password :: json

record entity_row =
  e_id :: json
  e_user_id :: json
  e_entity_name :: json
  e_entity_desc :: json
  e_entity_short_desc :: json
  e_category :: json

record service_row =
  s_id :: json
  s_user_id :: json
  s_entity_id :: json
  s_service_name :: json
  s_service_desc :: json
  s_min_duration :: json
  s_amount :: json
  s_category :: json

record payee_row =
  p_id :: json
  p_user_id :: json
  p_entity_id :: json
  p_service_id :: json
  p_payee_name :: json
  p_phone :: json
  p_email :: json
  p_amount :: json
  p_category :: json

record subscription_row =
  sub_id :: json
  sub_user_id :: json
  sub_entity_id :: json
  sub_service_id :: json
  sub_payee_id :: json
  sub_startDate :: json
  sub_endDate :: json
  sub_amount :: json
  sub_paymentDate :: json
  sub_category :: json

record store =
  users :: "user_row list"
  entities :: "entity_row list"
  services :: "service_row list"
  payees :: "payee_row list"
  subscriptions :: "subscription_row list"

text \<open>SQL \<^verbatim>\<open>a = b\<close> and \<^verbatim>\<open>a != b\<close>: never true on NULL.\<close>

definition sql_eq :: "json \<Rightarrow> json \<Rightarrow> bool" where
  "sql_eq a b = (a \<noteq> JNull \<and> b \<noteq> JNull \<and> a = b)"

definition sql_neq :: "json \<Rightarrow> json \<Rightarrow> bool" where
  "sql_neq a b = (a \<noteq> JNull \<and> b \<noteq> JNull \<and> a \<noteq> b)"

text \<open>Whether \<^verbatim>\<open>db.execute(sql, vs)\<close> accepts its parameters, and what it binds.\<close>

definition bindable :: "env \<Rightarrow> jsval list \<Rightarrow> bool" where
  "bindable env vs = list_all (\<lambda>v. v \<noteq> None \<or> bind_undefined env \<noteq> None) vs"

definition param :: "env \<Rightarrow> jsval \<Rightarrow> json" where
  "param env v =
     (case v of
        Some j \<Rightarrow> j
      | None \<Rightarrow> (case bind_undefined env of Some j \<Rightarrow> j | None \<Rightarrow> JNull))"

text \<open>\<^verbatim>\<open>result.insertId\<close> of an insert into a table with the given ids.\<close>

definition insertId :: "json list \<Rightarrow> int" where
  "insertId ids = 1 + fold (\<lambda>j m. case j of JNum n \<Rightarrow> max n m | _ \<Rightarrow> m) ids 0"

text \<open>
  \<^verbatim>\<open>LEFT JOIN t ON P\<close>: every matching row of \<open>t\<close>, or one row of NULLs.
\<close>

definition left_join :: "('a \<Rightarrow> bool) \<Rightarrow> 'a list \<Rightarrow> 'a option list" where
  "left_join P xs = (case filter P xs of [] \<Rightarrow> [None] | y # ys \<Rightarrow> map Some (y # ys))"

definition col :: "('a \<Rightarrow> json) \<Rightarrow> 'a option \<Rightarrow> json" where
  "col f r = (case r of None \<Rightarrow> JNull | Some x \<Rightarrow> f x)"

text \<open>
  Modelled from the spec: the schema's foreign keys, which are not in the
  repository.  With \<open>on_delete_cascade\<close> the rows that reference a deleted row
  go with it ("deleting an Entity must remove dependent Services, Payees, and
  Subscriptions; deleting a Service must remove dependent Payees and
  Subscriptions; deleting a Payee must remove dependent Subscriptions"); without
  it a \<^verbatim>\<open>DELETE\<close> removes the rows it selects and no other.
\<close>

definition refs :: "json \<Rightarrow> json list \<Rightarrow> bool" where
  "refs fk ids = list_ex (sql_eq fk) ids"

definition delete_subscriptions :: "(subscription_row \<Rightarrow> bool) \<Rightarrow> store \<Rightarrow> store" where
  "delete_subscriptions P db = db\<lparr>subscriptions := filter (\<lambda>r. \<not> P r) (subscriptions db)\<rparr>"

definition delete_payees :: "env \<Rightarrow> (payee_row \<Rightarrow> bool) \<Rightarrow> store \<Rightarrow> store" where
  "delete_payees env P db =
     (let gone = map p_id (filter P (payees db));
          db1 = db\<lparr>payees := filter (\<lambda>r. \<not> P r) (payees db)\<rparr>
      in if on_delete_cascade env
         then delete_subscriptions (\<lambda>r. refs (sub_payee_id r) gone) db1
         else db1)"

definition delete_services :: "env \<Rightarrow> (service_row \<Rightarrow> bool) \<Rightarrow> store \<Rightarrow> store" where
  "delete_services env P db =
     (let gone = map s_id (filter P (services db));
          db1 = db\<lparr>services := filter (\<lambda>r. \<not> P r) (services db)\<rparr>
      in if on_delete_cascade env
         then delete_subscriptions (\<lambda>r. refs (sub_service_id r) gone)
                (delete_payees env (\<lambda>r. refs (p_service_id r) gone) db1)
         else db1)"

definition delete_entities :: "env \<Rightarrow> (entity_row \<Rightarrow> bool) \<Rightarrow> store \<Rightarrow> store" where
  "delete_entities env P db =
     (let gone = map e_id (filter P (entities db));
          db1 = db\<lparr>entities := filter (\<lambda>r. \<not> P r) (entities db)\<rparr>
      in if on_delete_cascade env
         then delete_subscriptions (\<lambda>r. refs (sub_entity_id r) gone)
                (delete_payees env (\<lambda>r. refs (p_entity_id r) gone)
                  (delete_services env (\<lambda>r. refs (s_entity_id r) gone) db1))
         else db1)"

definition delete_users :: "env \<Rightarrow> (user_row \<Rightarrow> bool) \<Rightarrow> store \<Rightarrow> store" where
  "delete_users env P db =
     (let gone = map u_sr (filter P (users db));
          db1 = db\<lparr>users := filter (\<lambda>r. \<not> P r) (users db)\<rparr>
      in if on_delete_cascade env
         then delete_subscriptions (\<lambda>r. refs (sub_user_id r) gone)
                (delete_payees env (\<lambda>r. refs (p_user_id r) gone)
                  (delete_services env (\<lambda>r. refs (s_user_id r) gone)
                    (delete_entities env (\<lambda>r. refs (e_user_id r) gone) db1)))
         else db1)"


section \<open>The auth guard\<close>

text \<open>\<^verbatim>\<open>authHeader.split(' ')[1]\<close>, and \<^verbatim>\<open>request.headers.get('Authorization')?.split(' ')[1]\<close>.\<close>

definition header_token :: "string option \<Rightarrow> string option" where
  "header_token h = (case h of None \<Rightarrow> None | Some a \<Rightarrow> second (split_sp a))"

text \<open>\<^verbatim>\<open>jwt.verify\<close> throws on a token that is \<^verbatim>\<open>undefined\<close>.\<close>

definition verify_token :: "env \<Rightarrow> string option \<Rightarrow> claims option" where
  "verify_token env t = (case t of None \<Rightarrow> None | Some tok \<Rightarrow> jwt_verify env tok)"

text \<open>The negation of \<^verbatim>\<open>!authHeader || !authHeader.startsWith('Bearer ')\<close>.\<close>

definition bearer_header :: "string option \<Rightarrow> bool" where
  "bearer_header h = (case h of None \<Rightarrow> False | Some a \<Rightarrow> a \<noteq> [] \<and> startsWith a ''Bearer '')"

text \<open>
  The first lines of every Entities, Services, Payees and Subscriptions handler:
  \<open>Inl\<close> is the response returned at once, \<open>Inr\<close> the decoded token.  A throw of
  \<^verbatim>\<open>jwt.verify\<close> lands in the handler's \<^verbatim>\<open>catch\<close>, which answers 500.
\<close>

definition auth_guard :: "env \<Rightarrow> request \<Rightarrow> response + claims" where
  "auth_guard env req =
     (if \<not> bearer_header (auth_header req)
      then Inl (resp 401 ''Authorization token is missing or invalid'')
      else (case verify_token env (header_token (auth_header req)) of
              None \<Rightarrow> Inl error500
            | Some decoded \<Rightarrow> Inr decoded))"

text \<open>The first lines of EditUser and DeleteUser: \<^verbatim>\<open>if (!token)\<close>.\<close>

definition user_guard :: "env \<Rightarrow> request \<Rightarrow> response + claims" where
  "user_guard env req =
     (if \<not> truthy (map_option JStr (header_token (auth_header req)))
      then Inl (resp 401 ''Authorization token is required'')
      else (case verify_token env (header_token (auth_header req)) of
              None \<Rightarrow> Inl error500
            | Some decoded \<Rightarrow> Inr decoded))"

text \<open>
  \<^verbatim>\<open>const body = await request.json(); const { ... } = body;\<close>: \<open>None\<close> when the
  parse or the destructuring throws.
\<close>

definition parsed_body :: "request \<Rightarrow> json option" where
  "parsed_body req = (case body req of None \<Rightarrow> None | Some JNull \<Rightarrow> None | Some b \<Rightarrow> Some b)"


section \<open>Name resolution\<close>

text \<open>The name lookups, \<^verbatim>\<open>SELECT id FROM entities WHERE entity_name = ?\<close> and its like.\<close>

definition entities_named :: "env \<Rightarrow> jsval \<Rightarrow> store \<Rightarrow> entity_row list" where
  "entities_named env n db = filter (\<lambda>e. sql_eq (e_entity_name e) (param env n)) (entities db)"

definition services_named :: "env \<Rightarrow> jsval \<Rightarrow> store \<Rightarrow> service_row list" where
  "services_named env n db = filter (\<lambda>r. sql_eq (s_service_name r) (param env n)) (services db)"

definition payees_named :: "env \<Rightarrow> jsval \<Rightarrow> store \<Rightarrow> payee_row list" where
  "payees_named env n db = filter (\<lambda>r. sql_eq (p_payee_name r) (param env n)) (payees db)"


section \<open>Entities\<close>

text \<open>A row as the object the driver returns, a column per key.\<close>

definition entity_obj :: "entity_row \<Rightarrow> (string \<times> json) list" where
  "entity_obj e =
     [(''id'', e_id e), (''user_id'', e_user_id e), (''entity_name'', e_entity_name e),
      (''entity_desc'', e_entity_desc e), (''entity_short_desc'', e_entity_short_desc e),
      (''category'', e_category e)]"

text \<open>
  \<^verbatim>\<open>SELECT entities.*, users.username, users.sr AS user_id FROM entities
  JOIN users ON entities.user_id = users.sr WHERE users.sr = ?\<close>
\<close>

definition entities_GET :: "env \<Rightarrow> request \<Rightarrow> store \<Rightarrow> response \<times> store" where
  "entities_GET env req db =
     (case auth_guard env req of
        Inl r \<Rightarrow> (r, db)
      | Inr decoded \<Rightarrow>
          if \<not> bindable env [c_user_id decoded] then (error500, db)
          else
            let rows =
                  [entity_obj e @ [(''username'', u_username u), (''user_id'', u_sr u)].
                     e \<leftarrow> entities db, u \<leftarrow> users db,
                     sql_eq (e_user_id e) (u_sr u),
                     sql_eq (u_sr u) (param env (c_user_id decoded))]
            in if rows = [] then (resp 404 ''No entities found'', db)
               else (\<lparr>status = 200, message = ''Entities fetched successfully'',
                      data = Listed rows\<rparr>, db))"

definition entities_POST :: "env \<Rightarrow> request \<Rightarrow> store \<Rightarrow> response \<times> store" where
  "entities_POST env req db =
     (case auth_guard env req of
        Inl r \<Rightarrow> (r, db)
      | Inr decoded \<Rightarrow>
          (case parsed_body req of
             None \<Rightarrow> (error500, db)
           | Some b \<Rightarrow>
               let entity_name = fld b ''entity_name'';
                   entity_desc = fld b ''entity_desc'';
                   entity_short_desc = fld b ''entity_short_desc'';
                   category = fld b ''category''
               in
               if \<not> truthy entity_name \<or> \<not> truthy entity_desc \<or> \<not> truthy entity_short_desc
                  \<or> \<not> truthy category
               then (resp 400 ''Missing required fields: entity_name, entity_desc, entity_short_desc, and category are mandatory.'', db)
               else
                 (case toLowerCase category of
                    None \<Rightarrow> (error500, db)
                  | Some lc \<Rightarrow>
                      if \<not> allowed_category lc
                      then (resp 400 ''Invalid category. Allowed values are \"income\" or \"expense\".'', db)
                      else if \<not> bindable env [c_user_id decoded, entity_name, entity_desc,
                                               entity_short_desc]
                      then (error500, db)
                      else
                        let new_id = insertId (map e_id (entities db));
                            row = \<lparr>e_id = JNum new_id,
                                   e_user_id = param env (c_user_id decoded),
                                   e_entity_name = param env entity_name,
                                   e_entity_desc = param env entity_desc,
                                   e_entity_short_desc = param env entity_short_desc,
                                   e_category = JStr lc\<rparr>
                        in (\<lparr>status = 201, message = ''Entity created successfully'',
                             data = Created
                               [(''id'', Some (JNum new_id)), (''user_id'', c_user_id decoded),
                                (''entity_name'', entity_name), (''entity_desc'', entity_desc),
                                (''entity_short_desc'', entity_short_desc),
                                (''category'', Some (JStr lc))]\<rparr>,
                            db\<lparr>entities := entities db @ [row]\<rparr>))))"

text \<open>\<^verbatim>\<open>category ? category.toLowerCase() : existing.category\<close>; \<open>None\<close> when it throws.\<close>

definition category_or :: "jsval \<Rightarrow> json \<Rightarrow> jsval" where
  "category_or category existing =
     (if truthy category then map_option JStr (toLowerCase category) else Some existing)"

text \<open>
  \<^verbatim>\<open>category && !['income', 'expense'].includes(category.toLowerCase())\<close> comes in
  two steps: the call throws on a truthy value that is no string, then the test.
\<close>

definition entities_PUT :: "env \<Rightarrow> request \<Rightarrow> store \<Rightarrow> response \<times> store" where
  "entities_PUT env req db =
     (case auth_guard env req of
        Inl r \<Rightarrow> (r, db)
      | Inr decoded \<Rightarrow>
          (case parsed_body req of
             None \<Rightarrow> (error500, db)
           | Some b \<Rightarrow>
               let user_id = c_user_id decoded;
                   idv = fld b ''id'';
                   entity_name = fld b ''entity_name'';
                   entity_desc = fld b ''entity_desc'';
                   entity_short_desc = fld b ''entity_short_desc'';
                   category = fld b ''category''
               in
               if \<not> truthy idv \<or> \<not> truthy entity_name \<or> \<not> truthy entity_desc
                  \<or> \<not> truthy entity_short_desc
               then (resp 400 ''Missing required fields: id, entity_name, entity_desc, and entity_short_desc are mandatory.'', db)
               else if truthy category \<and> toLowerCase category = None then (error500, db)
               else if truthy category
                       \<and> \<not> (case toLowerCase category of Some lc \<Rightarrow> allowed_category lc
                                                         | None \<Rightarrow> False)
               then (resp 400 ''Invalid category. Allowed values are \"income\" or \"expense\".'', db)
               else if \<not> bindable env [idv, user_id] then (error500, db)
               else
                 (case take 1 (filter (\<lambda>e. sql_eq (e_id e) (param env idv)
                                          \<and> sql_eq (e_user_id e) (param env user_id))
                                 (entities db)) of
                    [] \<Rightarrow> (resp 404 ''Entity not found or does not belong to the user.'', db)
                  | existing # rest \<Rightarrow>
                      (case category_or category (e_category existing) of
                         None \<Rightarrow> (error500, db)
                       | Some new_category \<Rightarrow>
                           let new_name = js_or entity_name (Some (e_entity_name existing));
                               new_desc = js_or entity_desc (Some (e_entity_desc existing));
                               new_short = js_or entity_short_desc
                                             (Some (e_entity_short_desc existing))
                           in
                           if \<not> bindable env [new_name, new_desc, new_short,
                                                Some new_category, idv, user_id]
                           then (error500, db)
                           else
                             (resp 200 ''Entity updated successfully'',
                              db\<lparr>entities :=
                                   map (\<lambda>e. if sql_eq (e_id e) (param env idv)
                                                \<and> sql_eq (e_user_id e) (param env user_id)
                                             then e\<lparr>e_entity_name := param env new_name,
                                                    e_entity_desc := param env new_desc,
                                                    e_entity_short_desc := param env new_short,
                                                    e_category := new_category\<rparr>
                                             else e)
                                     (entities db)\<rparr>)))))"

text \<open>
  The DELETE of the file that holds all four resources: the dependent rows are
  deleted by hand, one statement a table.
\<close>

definition entities_DELETE :: "env \<Rightarrow> request \<Rightarrow> store \<Rightarrow> response \<times> store" where
  "entities_DELETE env req db =
     (case auth_guard env req of
        Inl r \<Rightarrow> (r, db)
      | Inr decoded \<Rightarrow>
          (case parsed_body req of
             None \<Rightarrow> (error500, db)
           | Some b \<Rightarrow>
               let user_id = c_user_id decoded;
                   entity_id = fld b ''entity_id''
               in
               if \<not> truthy entity_id
               then (resp 400 ''Missing required field: entity_id is mandatory.'', db)
               else if \<not> bindable env [entity_id, user_id] then (error500, db)
               else
                 (case take 1 (filter (\<lambda>e. sql_eq (e_id e) (param env entity_id)
                                          \<and> sql_eq (e_user_id e) (param env user_id))
                                 (entities db)) of
                    [] \<Rightarrow> (resp 404 ''Entity not found or does not belong to the user.'', db)
                  | existing # rest \<Rightarrow>
                      let db1 = delete_services env
                                  (\<lambda>r. sql_eq (s_entity_id r) (param env entity_id)) db;
                          db2 = delete_payees env
                                  (\<lambda>r. sql_eq (p_entity_id r) (param env entity_id)) db1;
                          db3 = delete_subscriptions
                                  (\<lambda>r. sql_eq (sub_entity_id r) (param env entity_id)) db2;
                          db4 = delete_entities env
                                  (\<lambda>e. sql_eq (e_id e) (param env entity_id)
                                       \<and> sql_eq (e_user_id e) (param env user_id)) db3
                      in (resp 200 ''Entity and related records deleted successfully.'', db4))))"

text \<open>
  The DELETE of the stand-alone Entities file: one statement,
  \<^verbatim>\<open>DELETE FROM entities WHERE id = ?\<close>, under the comment "ON DELETE CASCADE
  handles related records".
\<close>

definition entities_DELETE_fk :: "env \<Rightarrow> request \<Rightarrow> store \<Rightarrow> response \<times> store" where
  "entities_DELETE_fk env req db =
     (case auth_guard env req of
        Inl r \<Rightarrow> (r, db)
      | Inr decoded \<Rightarrow>
          (case parsed_body req of
             None \<Rightarrow> (error500, db)
           | Some b \<Rightarrow>
               let userId = c_user_id decoded;
                   entity_id = fld b ''entity_id''
               in
               if \<not> truthy entity_id then (resp 400 ''Entity ID is required'', db)
               else if \<not> bindable env [entity_id, userId] then (error500, db)
               else
                 (case take 1 (filter (\<lambda>e. sql_eq (e_id e) (param env entity_id)
                                          \<and> sql_eq (e_user_id e) (param env userId))
                                 (entities db)) of
                    [] \<Rightarrow> (resp 404 ''Entity not found or not authorized.'', db)
                  | entity # rest \<Rightarrow>
                      (resp 200 ''Entity and related records deleted successfully.'',
                       delete_entities env (\<lambda>e. sql_eq (e_id e) (param env entity_id)) db))))"


section \<open>Services\<close>

definition service_obj :: "service_row \<Rightarrow> (string \<times> json) list" where
  "service_obj r =
     [(''id'', s_id r), (''user_id'', s_user_id r), (''entity_id'', s_entity_id r),
      (''service_name'', s_service_name r), (''service_desc'', s_service_desc r),
      (''min_duration'', s_min_duration r), (''amount'', s_amount r),
      (''category'', s_category r)]"

text \<open>
  \<^verbatim>\<open>SELECT services.*, users.username, users.sr AS user_id, entities.id AS entity_id,
  entities.entity_name AS entity_name FROM services
  JOIN users ON services.user_id = users.sr
  LEFT JOIN entities ON services.entity_id = entities.id WHERE users.sr = ?\<close>
\<close>

definition services_GET :: "env \<Rightarrow> request \<Rightarrow> store \<Rightarrow> response \<times> store" where
  "services_GET env req db =
     (case auth_guard env req of
        Inl r \<Rightarrow> (r, db)
      | Inr decoded \<Rightarrow>
          if \<not> bindable env [c_user_id decoded] then (error500, db)
          else
            let rows =
                  [service_obj r @
                     [(''username'', u_username u), (''user_id'', u_sr u),
                      (''entity_id'', col e_id e), (''entity_name'', col e_entity_name e)].
                     r \<leftarrow> services db, u \<leftarrow> users db,
                     sql_eq (s_user_id r) (u_sr u),
                     e \<leftarrow> left_join (\<lambda>e. sql_eq (s_entity_id r) (e_id e)) (entities db),
                     sql_eq (u_sr u) (param env (c_user_id decoded))]
            in if rows = [] then (resp 404 ''No services found'', db)
               else (\<lparr>status = 200, message = ''Services fetched successfully'',
                      data = Listed rows\<rparr>, db))"

definition services_POST :: "env \<Rightarrow> request \<Rightarrow> store \<Rightarrow> response \<times> store" where
  "services_POST env req db =
     (case auth_guard env req of
        Inl r \<Rightarrow> (r, db)
      | Inr decoded \<Rightarrow>
          (case parsed_body req of
             None \<Rightarrow> (error500, db)
           | Some b \<Rightarrow>
               let service_name = fld b ''service_name'';
                   service_desc = fld b ''service_desc'';
                   entity_name = fld b ''entity_name'';
                   min_duration = fld b ''min_duration'';
                   amount = fld b ''amount'';
                   category = fld b ''category''
               in
               if \<not> truthy service_name \<or> \<not> truthy service_desc \<or> \<not> truthy min_duration
                  \<or> \<not> truthy amount \<or> \<not> truthy category \<or> \<not> truthy entity_name
               then (resp 400 ''Missing required fields: service_name, service_desc, min_duration, amount, category, and entity_name are mandatory.'', db)
               else
                 (case toLowerCase category of
                    None \<Rightarrow> (error500, db)
                  | Some lc \<Rightarrow>
                      if \<not> allowed_category lc
                      then (resp 400 ''Invalid category. Allowed values are \"income\" or \"expense\".'', db)
                      else if \<not> bindable env [entity_name] then (error500, db)
                      else
                        (case take 1 (entities_named env entity_name db) of
                           [] \<Rightarrow> (resp 404 ''Entity with name not found'', db)
                         | entity # rest \<Rightarrow>
                             let entity_id = e_id entity in
                             if \<not> bindable env [c_user_id decoded, Some entity_id, service_name,
                                                  service_desc, min_duration, amount]
                             then (error500, db)
                             else
                               let new_id = insertId (map s_id (services db));
                                   row = \<lparr>s_id = JNum new_id,
                                          s_user_id = param env (c_user_id decoded),
                                          s_entity_id = entity_id,
                                          s_service_name = param env service_name,
                                          s_service_desc = param env service_desc,
                                          s_min_duration = param env min_duration,
                                          s_amount = param env amount,
                                          s_category = JStr lc\<rparr>
                               in (\<lparr>status = 201, message = ''Service created successfully'',
                                    data = Created
                                      [(''id'', Some (JNum new_id)),
                                       (''user_id'', c_user_id decoded),
                                       (''entity_id'', Some entity_id),
                                       (''entity_name'', entity_name),
                                       (''service_name'', service_name),
                                       (''service_desc'', service_desc),
                                       (''min_duration'', min_duration),
                                       (''amount'', amount),
                                       (''category'', Some (JStr lc))]\<rparr>,
                                   db\<lparr>services := services db @ [row]\<rparr>)))))"

definition services_PUT :: "env \<Rightarrow> request \<Rightarrow> store \<Rightarrow> response \<times> store" where
  "services_PUT env req db =
     (case auth_guard env req of
        Inl r \<Rightarrow> (r, db)
      | Inr decoded \<Rightarrow>
          (case parsed_body req of
             None \<Rightarrow> (error500, db)
           | Some b \<Rightarrow>
               let user_id = c_user_id decoded;
                   idv = fld b ''id'';
                   entity_name = fld b ''entity_name'';
                   service_name = fld b ''service_name'';
                   service_desc = fld b ''service_desc'';
                   min_duration = fld b ''min_duration'';
                   amount = fld b ''amount'';
                   category = fld b ''category''
               in
               if \<not> truthy idv \<or> \<not> truthy entity_name
               then (resp 400 ''Missing required fields: id and entity_name are mandatory.'', db)
               else if truthy category \<and> toLowerCase category = None then (error500, db)
               else if truthy category
                       \<and> \<not> (case toLowerCase category of Some lc \<Rightarrow> allowed_category lc
                                                         | None \<Rightarrow> False)
               then (resp 400 ''Invalid category. Allowed values are \"income\" or \"expense\".'', db)
               else if \<not> bindable env [entity_name] then (error500, db)
               else
                 (case take 1 (entities_named env entity_name db) of
                    [] \<Rightarrow> (resp 404 ''Entity with name not found'', db)
                  | entity # rest \<Rightarrow>
                      let entity_id = e_id entity in
                      if \<not> bindable env [idv, user_id, Some entity_id] then (error500, db)
                      else
                        (case take 1 (filter (\<lambda>r. sql_eq (s_id r) (param env idv)
                                                 \<and> sql_eq (s_user_id r) (param env user_id)
                                                 \<and> sql_eq (s_entity_id r) entity_id)
                                        (services db)) of
                           [] \<Rightarrow> (resp 404 ''Service not found or does not belong to the specified user and entity.'', db)
                         | existing # rest' \<Rightarrow>
                             (case category_or category (s_category existing) of
                                None \<Rightarrow> (error500, db)
                              | Some new_category \<Rightarrow>
                                  let new_name = js_or service_name (Some (s_service_name existing));
                                      new_desc = js_or service_desc (Some (s_service_desc existing));
                                      new_duration = js_or min_duration
                                                       (Some (s_min_duration existing));
                                      new_amount = js_or amount (Some (s_amount existing))
                                  in
                                  if \<not> bindable env [new_name, new_desc, new_duration, new_amount,
                                                       Some new_category, idv, user_id,
                                                       Some entity_id]
                                  then (error500, db)
                                  else
                                    (resp 200 ''Service updated successfully'',
                                     db\<lparr>services :=
                                          map (\<lambda>r. if sql_eq (s_id r) (param env idv)
                                                       \<and> sql_eq (s_user_id r) (param env user_id)
                                                       \<and> sql_eq (s_entity_id r) entity_id
                                                    then r\<lparr>s_service_name := param env new_name,
                                                           s_service_desc := param env new_desc,
                                                           s_min_duration := param env new_duration,
                                                           s_amount := param env new_amount,
                                                           s_category := new_category\<rparr>
                                                    else r)
                                            (services db)\<rparr>))))))"

definition services_DELETE :: "env \<Rightarrow> request \<Rightarrow> store \<Rightarrow> response \<times> store" where
  "services_DELETE env req db =
     (case auth_guard env req of
        Inl r \<Rightarrow> (r, db)
      | Inr decoded \<Rightarrow>
          (case parsed_body req of
             None \<Rightarrow> (error500, db)
           | Some b \<Rightarrow>
               let user_id = c_user_id decoded;
                   idv = fld b ''id''
               in
               if \<not> truthy idv then (resp 400 ''Missing required field: id is mandatory.'', db)
               else if \<not> bindable env [idv, user_id] then (error500, db)
               else
                 (case take 1 (filter (\<lambda>r. sql_eq (s_id r) (param env idv)
                                          \<and> sql_eq (s_user_id r) (param env user_id))
                                 (services db)) of
                    [] \<Rightarrow> (resp 404 ''Service not found or does not belong to the user.'', db)
                  | existing # rest \<Rightarrow>
                      let db1 = delete_payees env
                                  (\<lambda>r. sql_eq (p_service_id r) (param env idv)) db;
                          db2 = delete_subscriptions
                                  (\<lambda>r. sql_eq (sub_service_id r) (param env idv)) db1;
                          db3 = delete_services env
                                  (\<lambda>r. sql_eq (s_id r) (param env idv)
                                       \<and> sql_eq (s_user_id r) (param env user_id)) db2
                      in (resp 200 ''Service and related records deleted successfully'', db3))))"

text \<open>The DELETE of the stand-alone Services file: \<^verbatim>\<open>DELETE FROM services WHERE id = ?\<close>.\<close>

definition services_DELETE_fk :: "env \<Rightarrow> request \<Rightarrow> store \<Rightarrow> response \<times> store" where
  "services_DELETE_fk env req db =
     (case auth_guard env req of
        Inl r \<Rightarrow> (r, db)
      | Inr decoded \<Rightarrow>
          (case parsed_body req of
             None \<Rightarrow> (error500, db)
           | Some b \<Rightarrow>
               let userId = c_user_id decoded;
                   idv = fld b ''id''
               in
               if \<not> truthy idv then (resp 400 ''Service ID is required'', db)
               else if \<not> bindable env [idv, userId] then (error500, db)
               else
                 (case take 1 (filter (\<lambda>r. sql_eq (s_id r) (param env idv)
                                          \<and> sql_eq (s_user_id r) (param env userId))
                                 (services db)) of
                    [] \<Rightarrow> (resp 404 ''Service not found or not authorized.'', db)
                  | service # rest \<Rightarrow>
                      (resp 200 ''Service and related records deleted successfully.'',
                       delete_services env (\<lambda>r. sql_eq (s_id r) (param env idv)) db))))"


section \<open>Payees\<close>

definition payee_obj :: "payee_row \<Rightarrow> (string \<times> json) list" where
  "payee_obj r =
     [(''id'', p_id r), (''user_id'', p_user_id r), (''entity_id'', p_entity_id r),
      (''service_id'', p_service_id r), (''payee_name'', p_payee_name r),
      (''phone'', p_phone r), (''email'', p_email r), (''amount'', p_amount r),
      (''category'', p_category r)]"

text \<open>\<^verbatim>\<open>const [[row]] = await db.execute(...)\<close> and then \<^verbatim>\<open>row.id\<close>: the first row's column.\<close>

definition first_col :: "('a \<Rightarrow> json) \<Rightarrow> 'a list \<Rightarrow> json" where
  "first_col f rows = (case rows of [] \<Rightarrow> JNull | r # rest \<Rightarrow> f r)"

definition payees_GET :: "env \<Rightarrow> request \<Rightarrow> store \<Rightarrow> response \<times> store" where
  "payees_GET env req db =
     (case auth_guard env req of
        Inl r \<Rightarrow> (r, db)
      | Inr decoded \<Rightarrow>
          if \<not> bindable env [c_user_id decoded] then (error500, db)
          else
            let rows =
                  [payee_obj r @
                     [(''username'', u_username u), (''user_id'', u_sr u),
                      (''entity_id'', col e_id e), (''entity_name'', col e_entity_name e),
                      (''service_id'', col s_id sv), (''service_name'', col s_service_name sv)].
                     r \<leftarrow> payees db, u \<leftarrow> users db,
                     sql_eq (p_user_id r) (u_sr u),
                     e \<leftarrow> left_join (\<lambda>e. sql_eq (p_entity_id r) (e_id e)) (entities db),
                     sv \<leftarrow> left_join (\<lambda>x. sql_eq (p_service_id r) (s_id x)) (services db),
                     sql_eq (u_sr u) (param env (c_user_id decoded))]
            in if rows = [] then (resp 404 ''No payees found'', db)
               else (\<lparr>status = 200, message = ''Payees fetched successfully'',
                      data = Listed rows\<rparr>, db))"

definition payees_POST :: "env \<Rightarrow> request \<Rightarrow> store \<Rightarrow> response \<times> store" where
  "payees_POST env req db =
     (case auth_guard env req of
        Inl r \<Rightarrow> (r, db)
      | Inr decoded \<Rightarrow>
          (case parsed_body req of
             None \<Rightarrow> (error500, db)
           | Some b \<Rightarrow>
               let user_id = c_user_id decoded;
                   entity_name = fld b ''entity_name'';
                   service_name = fld b ''service_name'';
                   payee_name = fld b ''payee_name'';
                   phone = fld b ''phone'';
                   email = fld b ''email'';
                   amount = fld b ''amount'';
                   category = fld b ''category''
               in
               if \<not> truthy entity_name \<or> \<not> truthy service_name \<or> \<not> truthy payee_name
                  \<or> \<not> truthy phone \<or> \<not> truthy email \<or> \<not> truthy amount \<or> \<not> truthy category
               then (resp 400 ''All fields are required'', db)
               else if \<not> bindable env [entity_name] \<or> \<not> bindable env [service_name]
               then (error500, db)
               else
                 let entity = entities_named env entity_name db;
                     service = services_named env service_name db
                 in
                 if entity = [] \<or> service = []
                 then (resp 404 ''Invalid entity or service name'', db)
                 else if \<not> bindable env [user_id, Some (first_col e_id entity),
                                          Some (first_col s_id service), payee_name, phone,
                                          email, amount, category]
                 then (error500, db)
                 else
                   let row = \<lparr>p_id = JNum (insertId (map p_id (payees db))),
                              p_user_id = param env user_id,
                              p_entity_id = first_col e_id entity,
                              p_service_id = first_col s_id service,
                              p_payee_name = param env payee_name,
                              p_phone = param env phone,
                              p_email = param env email,
                              p_amount = param env amount,
                              p_category = param env category\<rparr>
                   in (resp 201 ''Payee created successfully'',
                       db\<lparr>payees := payees db @ [row]\<rparr>)))"

definition payees_PUT :: "env \<Rightarrow> request \<Rightarrow> store \<Rightarrow> response \<times> store" where
  "payees_PUT env req db =
     (case auth_guard env req of
        Inl r \<Rightarrow> (r, db)
      | Inr decoded \<Rightarrow>
          (case parsed_body req of
             None \<Rightarrow> (error500, db)
           | Some b \<Rightarrow>
               let userId = c_user_id decoded;
                   idv = fld b ''id'';
                   user_id = fld b ''user_id'';
                   entity_name = fld b ''entity_name'';
                   service_name = fld b ''service_name'';
                   payee_name = fld b ''payee_name'';
                   phone = fld b ''phone'';
                   email = fld b ''email'';
                   amount = fld b ''amount'';
                   category = fld b ''category''
               in
               if \<not> truthy idv then (resp 400 ''Payee ID is required'', db)
               else
                 let resolvedUserId = js_or user_id userId;
                     entity = entities_named env entity_name db;
                     service = services_named env service_name db
                 in
                 if truthy entity_name \<and> entity = []
                 then (resp 404 ''Invalid entity name'', db)
                 else if truthy service_name \<and> service = []
                 then (resp 404 ''Invalid service name'', db)
                 else
                   let entityId = (if truthy entity_name then first_col e_id entity else JNull);
                       serviceId = (if truthy service_name then first_col s_id service else JNull)
                   in
                   if \<not> bindable env [resolvedUserId, Some entityId, Some serviceId, payee_name,
                                       phone, email, amount, category, idv]
                   then (error500, db)
                   else
                     (resp 200 ''Payee updated successfully'',
                      db\<lparr>payees :=
                           map (\<lambda>r. if sql_eq (p_id r) (param env idv)
                                     then r\<lparr>p_user_id := param env resolvedUserId,
                                            p_entity_id := entityId,
                                            p_service_id := serviceId,
                                            p_payee_name := param env payee_name,
                                            p_phone := param env phone,
                                            p_email := param env email,
                                            p_amount := param env amount,
                                            p_category := param env category\<rparr>
                                     else r)
                             (payees db)\<rparr>)))"

definition payees_DELETE :: "env \<Rightarrow> request \<Rightarrow> store \<Rightarrow> response \<times> store" where
  "payees_DELETE env req db =
     (case auth_guard env req of
        Inl r \<Rightarrow> (r, db)
      | Inr decoded \<Rightarrow>
          (case parsed_body req of
             None \<Rightarrow> (error500, db)
           | Some b \<Rightarrow>
               let userId = c_user_id decoded;
                   idv = fld b ''id''
               in
               if \<not> truthy idv then (resp 400 ''Payee ID is required'', db)
               else if \<not> bindable env [idv, userId] then (error500, db)
               else
                 (case filter (\<lambda>r. sql_eq (p_id r) (param env idv)
                                  \<and> sql_eq (p_user_id r) (param env userId))
                         (payees db) of
                    [] \<Rightarrow> (resp 404 ''Payee not found or not authorized to delete'', db)
                  | payee # rest \<Rightarrow>
                      let db1 = delete_subscriptions
                                  (\<lambda>r. sql_eq (sub_payee_id r) (param env idv)) db;
                          db2 = delete_payees env
                                  (\<lambda>r. sql_eq (p_id r) (param env idv)
                                       \<and> sql_eq (p_user_id r) (param env userId)) db1
                      in (resp 200 ''Payee and all associated subscriptions deleted successfully'',
                          db2))))"


section \<open>Subscriptions\<close>

definition subscription_obj :: "subscription_row \<Rightarrow> (string \<times> json) list" where
  "subscription_obj r =
     [(''id'', sub_id r), (''user_id'', sub_user_id r), (''entity_id'', sub_entity_id r),
      (''service_id'', sub_service_id r), (''payee_id'', sub_payee_id r),
      (''startDate'', sub_startDate r), (''endDate'', sub_endDate r),
      (''amount'', sub_amount r), (''paymentDate'', sub_paymentDate r),
      (''category'', sub_category r)]"

definition subscriptions_GET :: "env \<Rightarrow> request \<Rightarrow> store \<Rightarrow> response \<times> store" where
  "subscriptions_GET env req db =
     (case auth_guard env req of
        Inl r \<Rightarrow> (r, db)
      | Inr decoded \<Rightarrow>
          if \<not> bindable env [c_user_id decoded] then (error500, db)
          else
            let rows =
                  [subscription_obj r @
                     [(''username'', u_username u), (''user_id'', u_sr u),
                      (''entity_id'', col e_id e), (''entity_name'', col e_entity_name e),
                      (''service_id'', col s_id sv), (''service_name'', col s_service_name sv),
                      (''service_duration'', col s_min_duration sv),
                      (''payee_name'', col p_payee_name py), (''payee_email'', col p_email py),
                      (''payee_phone'', col p_phone py)].
                     r \<leftarrow> subscriptions db, u \<leftarrow> users db,
                     sql_eq (sub_user_id r) (u_sr u),
                     e \<leftarrow> left_join (\<lambda>e. sql_eq (sub_entity_id r) (e_id e)) (entities db),
                     sv \<leftarrow> left_join (\<lambda>x. sql_eq (sub_service_id r) (s_id x)) (services db),
                     py \<leftarrow> left_join (\<lambda>x. sql_eq (sub_payee_id r) (p_id x)) (payees db),
                     sql_eq (u_sr u) (param env (c_user_id decoded))]
            in if rows = [] then (resp 404 ''No subscriptions found'', db)
               else (\<lparr>status = 200, message = ''Subscriptions fetched successfully'',
                      data = Listed rows\<rparr>, db))"

definition subscriptions_POST :: "env \<Rightarrow> request \<Rightarrow> store \<Rightarrow> response \<times> store" where
  "subscriptions_POST env req db =
     (case auth_guard env req of
        Inl r \<Rightarrow> (r, db)
      | Inr decoded \<Rightarrow>
          (case parsed_body req of
             None \<Rightarrow> (error500, db)
           | Some b \<Rightarrow>
               let user_id = c_user_id decoded;
                   entity_name = fld b ''entity_name'';
                   service_name = fld b ''service_name'';
                   payee_name = fld b ''payee_name'';
                   startDate = fld b ''startDate'';
                   endDate = fld b ''endDate'';
                   amount = fld b ''amount'';
                   paymentDate = fld b ''paymentDate'';
                   category = fld b ''category''
               in
               if \<not> truthy entity_name \<or> \<not> truthy service_name \<or> \<not> truthy payee_name
                  \<or> \<not> truthy startDate \<or> \<not> truthy endDate \<or> \<not> truthy amount
                  \<or> \<not> truthy paymentDate \<or> \<not> truthy category
               then (resp 400 ''All fields are required'', db)
               else if \<not> bindable env [entity_name] \<or> \<not> bindable env [service_name]
                       \<or> \<not> bindable env [payee_name]
               then (error500, db)
               else
                 let entity = entities_named env entity_name db;
                     service = services_named env service_name db;
                     payee = payees_named env payee_name db
                 in
                 if entity = [] \<or> service = [] \<or> payee = []
                 then (resp 404 ''Invalid entity, service, or payee name'', db)
                 else if \<not> bindable env [user_id, Some (first_col e_id entity),
                                          Some (first_col s_id service),
                                          Some (first_col p_id payee), startDate, endDate,
                                          amount, paymentDate, category]
                 then (error500, db)
                 else
                   let row = \<lparr>sub_id = JNum (insertId (map sub_id (subscriptions db))),
                              sub_user_id = param env user_id,
                              sub_entity_id = first_col e_id entity,
                              sub_service_id = first_col s_id service,
                              sub_payee_id = first_col p_id payee,
                              sub_startDate = param env startDate,
                              sub_endDate = param env endDate,
                              sub_amount = param env amount,
                              sub_paymentDate = param env paymentDate,
                              sub_category = param env category\<rparr>
                   in (resp 201 ''Subscription created successfully'',
                       db\<lparr>subscriptions := subscriptions db @ [row]\<rparr>)))"

definition subscriptions_PUT :: "env \<Rightarrow> request \<Rightarrow> store \<Rightarrow> response \<times> store" where
  "subscriptions_PUT env req db =
     (case auth_guard env req of
        Inl r \<Rightarrow> (r, db)
      | Inr decoded \<Rightarrow>
          (case parsed_body req of
             None \<Rightarrow> (error500, db)
           | Some b \<Rightarrow>
               let idv = fld b ''id'';
                   user_id = fld b ''user_id'';
                   entity_name = fld b ''entity_name'';
                   service_name = fld b ''service_name'';
                   payee_name = fld b ''payee_name'';
                   startDate = fld b ''startDate'';
                   endDate = fld b ''endDate'';
                   amount = fld b ''amount'';
                   paymentDate = fld b ''paymentDate'';
                   category = fld b ''category''
               in
               if \<not> truthy idv then (resp 400 ''Subscription ID is required'', db)
               else
                 let resolvedUserId = js_or user_id (c_user_id decoded);
                     entity = entities_named env entity_name db;
                     service = services_named env service_name db;
                     payee = payees_named env payee_name db
                 in
                 if truthy entity_name \<and> entity = []
                 then (resp 404 ''Invalid entity name'', db)
                 else if truthy service_name \<and> service = []
                 then (resp 404 ''Invalid service name'', db)
                 else if truthy payee_name \<and> payee = []
                 then (resp 404 ''Invalid payee name'', db)
                 else
                   let entityId = (if truthy entity_name then first_col e_id entity else JNull);
                       serviceId = (if truthy service_name then first_col s_id service else JNull);
                       payeeId = (if truthy payee_name then first_col p_id payee else JNull)
                   in
                   if \<not> bindable env [resolvedUserId, Some entityId, Some serviceId, Some payeeId,
                                       startDate, endDate, amount, paymentDate, category, idv]
                   then (error500, db)
                   else
                     (resp 200 ''Subscription updated successfully'',
                      db\<lparr>subscriptions :=
                           map (\<lambda>r. if sql_eq (sub_id r) (param env idv)
                                     then r\<lparr>sub_user_id := param env resolvedUserId,
                                            sub_entity_id := entityId,
                                            sub_service_id := serviceId,
                                            sub_payee_id := payeeId,
                                            sub_startDate := param env startDate,
                                            sub_endDate := param env endDate,
                                            sub_amount := param env amount,
                                            sub_paymentDate := param env paymentDate,
                                            sub_category := param env category\<rparr>
                                     else r)
                             (subscriptions db)\<rparr>)))"

definition subscriptions_DELETE :: "env \<Rightarrow> request \<Rightarrow> store \<Rightarrow> response \<times> store" where
  "subscriptions_DELETE env req db =
     (case auth_guard env req of
        Inl r \<Rightarrow> (r, db)
      | Inr decoded \<Rightarrow>
          (case parsed_body req of
             None \<Rightarrow> (error500, db)
           | Some b \<Rightarrow>
               let userId = c_user_id decoded;
                   idv = fld b ''id''
               in
               if \<not> truthy idv then (resp 400 ''Subscription ID is required'', db)
               else if \<not> bindable env [idv, userId] then (error500, db)
               else
                 (case filter (\<lambda>r. sql_eq (sub_id r) (param env idv)
                                  \<and> sql_eq (sub_user_id r) (param env userId))
                         (subscriptions db) of
                    [] \<Rightarrow> (resp 404 ''Subscription not found or not authorized to delete'', db)
                  | subscription # rest \<Rightarrow>
                      (resp 200 ''Subscription deleted successfully'',
                       delete_subscriptions
                         (\<lambda>r. sql_eq (sub_id r) (param env idv)
                              \<and> sql_eq (sub_user_id r) (param env userId)) db))))"


section \<open>EditUser and DeleteUser\<close>

text \<open>
  \<^verbatim>\<open>result.affectedRows\<close> is taken as the number of rows the \<^verbatim>\<open>WHERE\<close> matches.
\<close>

definition EditUser_PUT :: "env \<Rightarrow> request \<Rightarrow> store \<Rightarrow> response \<times> store" where
  "EditUser_PUT env req db =
     (case user_guard env req of
        Inl r \<Rightarrow> (r, db)
      | Inr decoded \<Rightarrow>
          (case parsed_body req of
             None \<Rightarrow> (error500, db)
           | Some b \<Rightarrow>
               let userId = c_id decoded;
                   name = fld b ''name'';
                   email = fld b ''email'';
                   phone = fld b ''phone'';
                   username = fld b ''username'';
                   password = fld b ''password''
               in
               if \<not> bindable env [username, userId] then (error500, db)
               else if filter (\<lambda>u. sql_eq (u_username u) (param env username)
                                   \<and> sql_neq (u_sr u) (param env userId)) (users db) \<noteq> []
               then (resp 409 ''Username already exists'', db)
               else if \<not> bindable env [name, email, phone, username, password, userId]
               then (error500, db)
               else if filter (\<lambda>u. sql_eq (u_sr u) (param env userId)) (users db) = []
               then (resp 404 ''User  not found or no changes made'', db)
               else
                 (resp 200 ''User  updated successfully'',
                  db\<lparr>users :=
                       map (\<lambda>u. if sql_eq (u_sr u) (param env userId)
                                 then u\<lparr>u_name := param env name,
                                        u_email := param env email,
                                        u_phone := param env phone,
                                        u_username := param env username,
                                        u_password := param env password\<rparr>
                                 else u)
                         (users db)\<rparr>)))"

definition DeleteUser_DELETE :: "env \<Rightarrow> request \<Rightarrow> store \<Rightarrow> response \<times> store" where
  "DeleteUser_DELETE env req db =
     (case user_guard env req of
        Inl r \<Rightarrow> (r, db)
      | Inr decoded \<Rightarrow>
          let userId = c_id decoded in
          if \<not> bindable env [userId] then (error500, db)
          else if filter (\<lambda>u. sql_eq (u_sr u) (param env userId)) (users db) = []
          then (resp 404 ''User  not found'', db)
          else (resp 200 ''User  deleted successfully'',
                delete_users env (\<lambda>u. sql_eq (u_sr u) (param env userId)) db))"


section \<open>All the handlers\<close>

text \<open>\<^verbatim>\<open>OPTIONS\<close>, the same in every file: the CORS preflight, status 200, no guard.\<close>

definition OPTIONS :: "env \<Rightarrow> request \<Rightarrow> store \<Rightarrow> response \<times> store" where
  "OPTIONS env req db = (resp 200 [], db)"

datatype resource = Entities | Services | Payees | Subscriptions

datatype http_method = GET | POST | PUT | DELETE

text \<open>
  A handler of the repository: a method of one of the four resources (as the
  file that holds all four has them), the two \<^verbatim>\<open>DELETE\<close>s of the stand-alone
  Entities and Services files, the two user routes, and the preflight.
\<close>

datatype endpoint =
    Resource resource http_method
  | Entities_DELETE_fk
  | Services_DELETE_fk
  | EditUser
  | DeleteUser
  | Preflight

fun handle :: "endpoint \<Rightarrow> env \<Rightarrow> request \<Rightarrow> store \<Rightarrow> response \<times> store" where
  "handle (Resource Entities GET) = entities_GET"
| "handle (Resource Entities POST) = entities_POST"
| "handle (Resource Entities PUT) = entities_PUT"
| "handle (Resource Entities DELETE) = entities_DELETE"
| "handle (Resource Services GET) = services_GET"
| "handle (Resource Services POST) = services_POST"
| "handle (Resource Services PUT) = services_PUT"
| "handle (Resource Services DELETE) = services_DELETE"
| "handle (Resource Payees GET) = payees_GET"
| "handle (Resource Payees POST) = payees_POST"
| "handle (Resource Payees PUT) = payees_PUT"
| "handle (Resource Payees DELETE) = payees_DELETE"
| "handle (Resource Subscriptions GET) = subscriptions_GET"
| "handle (Resource Subscriptions POST) = subscriptions_POST"
| "handle (Resource Subscriptions PUT) = subscriptions_PUT"
| "handle (Resource Subscriptions DELETE) = subscriptions_DELETE"
| "handle Entities_DELETE_fk = entities_DELETE_fk"
| "handle Services_DELETE_fk = services_DELETE_fk"
| "handle EditUser = EditUser_PUT"
| "handle DeleteUser = DeleteUser_DELETE"
| "handle Preflight = OPTIONS"


section \<open>A small store to run the handlers on\<close>

text \<open>
  Two users, Alice (7) and Bob (8), whose tokens are \<^verbatim>\<open>alice\<close> and \<^verbatim>\<open>bob\<close>; every
  other token fails verification.  The driver throws on an \<^verbatim>\<open>undefined\<close>
  parameter and the schema does not cascade.
\<close>

definition demo_verify :: "string \<Rightarrow> claims option" where
  "demo_verify t =
     (if t = ''alice'' then Some \<lparr>c_user_id = Some (JNum 7), c_id = Some (JNum 7)\<rparr>
      else if t = ''bob'' then Some \<lparr>c_user_id = Some (JNum 8), c_id = Some (JNum 8)\<rparr>
      else None)"

definition demo_env :: env where
  "demo_env = \<lparr>jwt_verify = demo_verify, bind_undefined = None, on_delete_cascade = False\<rparr>"

definition cascading_env :: env where
  "cascading_env = \<lparr>jwt_verify = demo_verify, bind_undefined = None, on_delete_cascade = True\<rparr>"

definition demo_db :: store where
  "demo_db =
     \<lparr>users =
        [\<lparr>u_sr = JNum 7, u_username = JStr ''alice'', u_name = JStr ''Alice'',
          u_email = JStr ''a@x.org'', u_phone = JStr ''100'', u_password = JStr ''pa''\<rparr>,
         \<lparr>u_sr = JNum 8, u_username = JStr ''bob'', u_name = JStr ''Bob'',
          u_email = JStr ''b@x.org'', u_phone = JStr ''200'', u_password = JStr ''pb''\<rparr>],
      entities =
        [\<lparr>e_id = JNum 1, e_user_id = JNum 7, e_entity_name = JStr ''Acme'',
          e_entity_desc = JStr ''d'', e_entity_short_desc = JStr ''s'',
          e_category = JStr ''income''\<rparr>,
         \<lparr>e_id = JNum 5, e_user_id = JNum 8, e_entity_name = JStr ''Globex'',
          e_entity_desc = JStr ''g'', e_entity_short_desc = JStr ''h'',
          e_category = JStr ''expense''\<rparr>],
      services =
        [\<lparr>s_id = JNum 3, s_user_id = JNum 7, s_entity_id = JNum 1,
          s_service_name = JStr ''Hosting'', s_service_desc = JStr ''web'',
          s_min_duration = JNum 12, s_amount = JNum 40, s_category = JStr ''income''\<rparr>],
      payees =
        [\<lparr>p_id = JNum 1, p_user_id = JNum 8, p_entity_id = JNum 5, p_service_id = JNull,
          p_payee_name = JStr ''Carol'', p_phone = JStr ''300'', p_email = JStr ''c@x.org'',
          p_amount = JNum 10, p_category = JStr ''expense''\<rparr>,
         \<lparr>p_id = JNum 2, p_user_id = JNum 7, p_entity_id = JNum 1, p_service_id = JNum 3,
          p_payee_name = JStr ''Dave'', p_phone = JStr ''400'', p_email = JStr ''d@x.org'',
          p_amount = JNum 40, p_category = JStr ''income''\<rparr>],
      subscriptions =
        [\<lparr>sub_id = JNum 1, sub_user_id = JNum 7, sub_entity_id = JNum 1,
          sub_service_id = JNum 3, sub_payee_id = JNum 2, sub_startDate = JStr ''2025-01-01'',
          sub_endDate = JStr ''2025-12-31'', sub_amount = JNum 40,
          sub_paymentDate = JStr ''2025-01-05'', sub_category = JStr ''income''\<rparr>]\<rparr>"

definition alice :: "json \<Rightarrow> request" where
  "alice b = \<lparr>auth_header = Some ''Bearer alice'', body = Some b\<rparr>"

definition alice_claims :: claims where
  "alice_claims = \<lparr>c_user_id = Some (JNum 7), c_id = Some (JNum 7)\<rparr>"


section \<open>What the properties speak about\<close>

text \<open>The two user routes have their own header test.\<close>

fun user_route :: "endpoint \<Rightarrow> bool" where
  "user_route EditUser = True"
| "user_route DeleteUser = True"
| "user_route ep = False"

text \<open>The header test of a handler, and the response when it fails.\<close>

fun header_accepted :: "endpoint \<Rightarrow> string option \<Rightarrow> bool" where
  "header_accepted EditUser h = truthy (map_option JStr (header_token h))"
| "header_accepted DeleteUser h = truthy (map_option JStr (header_token h))"
| "header_accepted ep h = bearer_header h"

fun rejection :: "endpoint \<Rightarrow> response" where
  "rejection EditUser = resp 401 ''Authorization token is required''"
| "rejection DeleteUser = resp 401 ''Authorization token is required''"
| "rejection ep = resp 401 ''Authorization token is missing or invalid''"

text \<open>
  The fields a Create or Update handler tests in its "required fields" check,
  in the order of the test.
\<close>

fun required_fields :: "endpoint \<Rightarrow> string list" where
  "required_fields (Resource Entities POST) =
     [''entity_name'', ''entity_desc'', ''entity_short_desc'', ''category'']"
| "required_fields (Resource Entities PUT) =
     [''id'', ''entity_name'', ''entity_desc'', ''entity_short_desc'']"
| "required_fields (Resource Services POST) =
     [''service_name'', ''service_desc'', ''min_duration'', ''amount'', ''category'',
      ''entity_name'']"
| "required_fields (Resource Services PUT) = [''id'', ''entity_name'']"
| "required_fields (Resource Payees POST) =
     [''entity_name'', ''service_name'', ''payee_name'', ''phone'', ''email'', ''amount'',
      ''category'']"
| "required_fields (Resource Payees PUT) = [''id'']"
| "required_fields (Resource Subscriptions POST) =
     [''entity_name'', ''service_name'', ''payee_name'', ''startDate'', ''endDate'', ''amount'',
      ''paymentDate'', ''category'']"
| "required_fields (Resource Subscriptions PUT) = [''id'']"
| "required_fields ep = []"





text \<open>
  A column of a row; the rows of a List response; the rows of a table as the driver
  returns them.
\<close>

definition cell :: "string \<Rightarrow> (string \<times> json) list \<Rightarrow> jsval" where
  "cell k row = fld (JObj row) k"

definition listed :: "response \<Rightarrow> (string \<times> json) list list" where
  "listed r = (case data r of Listed rows \<Rightarrow> rows | _ \<Rightarrow> [])"

fun table_rows :: "resource \<Rightarrow> store \<Rightarrow> (string \<times> json) list list" where
  "table_rows Entities db = map entity_obj (entities db)"
| "table_rows Services db = map service_obj (services db)"
| "table_rows Payees db = map payee_obj (payees db)"
| "table_rows Subscriptions db = map subscription_obj (subscriptions db)"


text \<open>
  The columns a PUT sets (the \<^verbatim>\<open>SET\<close> list of its \<^verbatim>\<open>UPDATE\<close>), under the name of the
  body field that feeds them, and the ids of a table.
\<close>

fun updatable :: "resource \<Rightarrow> string list" where
  "updatable Entities = [''entity_name'', ''entity_desc'', ''entity_short_desc'', ''category'']"
| "updatable Services =
     [''service_name'', ''service_desc'', ''min_duration'', ''amount'', ''category'']"
| "updatable Payees =
     [''user_id'', ''entity_id'', ''service_id'', ''payee_name'', ''phone'', ''email'', ''amount'',
      ''category'']"
| "updatable Subscriptions =
     [''user_id'', ''entity_id'', ''service_id'', ''payee_id'', ''startDate'', ''endDate'',
      ''amount'', ''paymentDate'', ''category'']"

fun ids :: "resource \<Rightarrow> store \<Rightarrow> json list" where
  "ids Entities db = map e_id (entities db)"
| "ids Services db = map s_id (services db)"
| "ids Payees db = map p_id (payees db)"
| "ids Subscriptions db = map sub_id (subscriptions db)"



section \<open>Proofs\<close>

lemmas handler_defs =
  entities_GET_def entities_POST_def entities_PUT_def entities_DELETE_def entities_DELETE_fk_def
  services_GET_def services_POST_def services_PUT_def services_DELETE_def services_DELETE_fk_def
  payees_GET_def payees_POST_def payees_PUT_def payees_DELETE_def
  subscriptions_GET_def subscriptions_POST_def subscriptions_PUT_def subscriptions_DELETE_def
  EditUser_PUT_def DeleteUser_DELETE_def OPTIONS_def

lemmas guard_defs =
  auth_guard_def user_guard_def bearer_header_def startsWith_def header_token_def second_def
  verify_token_def

lemmas run_defs =
  parsed_body_def fld_def bindable_def param_def sql_eq_def sql_neq_def resp_def error500_def
  js_or_def first_col_def entities_named_def services_named_def payees_named_def category_or_def
  toLowerCase_def allowed_category_def lower_char_def insertId_def alice_def alice_claims_def
  guard_defs demo_env_def demo_verify_def demo_db_def Let_def

lemma alice_authenticated [simp]: "auth_guard demo_env (alice b) = Inr alice_claims"
  by (simp add: guard_defs alice_def demo_env_def demo_verify_def alice_claims_def)

lemma alice_body [simp]: "parsed_body (alice (JObj kvs)) = Some (JObj kvs)"
  by (simp add: parsed_body_def alice_def)

subsection \<open>The guards come first\<close>

lemma guard_rejects:
  assumes "\<not> user_route ep" "ep \<noteq> Preflight" "auth_guard env req = Inl r"
  shows "handle ep env req db = (r, db)"
proof (cases ep)
  case (Resource res m)
  then show ?thesis using assms(3)
    by (cases res; cases m) (simp_all add: handler_defs)
qed (use assms in \<open>simp_all add: handler_defs\<close>)

lemma user_guard_rejects:
  assumes "user_route ep" "user_guard env req = Inl r"
  shows "handle ep env req db = (r, db)"
  using assms by (cases ep) (simp_all add: handler_defs)

lemma header_refused:
  assumes "ep \<noteq> Preflight" "\<not> header_accepted ep (auth_header req)"
  shows "handle ep env req db = (rejection ep, db)"
proof (cases "user_route ep")
  case True
  with assms have "user_guard env req = Inl (rejection ep)"
    by (cases ep) (simp_all add: user_guard_def)
  with True show ?thesis by (rule user_guard_rejects)
next
  case False
  with assms have "auth_guard env req = Inl (rejection ep)"
    by (cases ep) (simp_all add: auth_guard_def)
  with False assms(1) show ?thesis by (simp add: guard_rejects)
qed

lemma token_refused:
  assumes "ep \<noteq> Preflight" "header_accepted ep (auth_header req)"
      and "verify_token env (header_token (auth_header req)) = None"
  shows "handle ep env req db = (error500, db)"
proof (cases "user_route ep")
  case True
  with assms have "user_guard env req = Inl error500"
    by (cases ep) (simp_all add: user_guard_def)
  with True show ?thesis by (rule user_guard_rejects)
next
  case False
  with assms have "auth_guard env req = Inl error500"
    by (cases ep) (simp_all add: auth_guard_def)
  with False assms(1) show ?thesis by (simp add: guard_rejects)
qed

lemma status_rejection: "status (rejection ep) = 401"
  by (cases ep) (simp_all add: resp_def)

lemma absent_header_not_accepted: "\<not> header_accepted ep None"
  by (cases ep) (simp_all add: bearer_header_def header_token_def)


text \<open>
  C1, as the spec has it: a request without a valid Bearer token is answered 401,
  whatever the method and the body.  The code does not do that for a token that
  fails verification: \<^verbatim>\<open>jwt.verify\<close> throws, the handler's \<^verbatim>\<open>catch\<close> answers 500.
  Here \<^verbatim>\<open>GET /Entities\<close> with a well-formed header and a token the verifier rejects.
\<close>

theorem rejected_token_is_500:
  "bearer_header (Some ''Bearer expired'')
   \<and> jwt_verify demo_env ''expired'' = None
   \<and> status (fst (handle (Resource Entities GET) demo_env
        \<lparr>auth_header = Some ''Bearer expired'', body = None\<rparr> demo_db)) = 500"
  by (simp add: entities_GET_def guard_defs demo_env_def demo_verify_def error500_def resp_def)

text \<open>
  C1, amended: every handler but the \<^verbatim>\<open>OPTIONS\<close> preflight answers 401, and leaves the
  store alone, when the Authorization header is absent or fails the handler's
  header test, whatever the body; when the header passes the test and the token
  fails verification, the answer is 500, again with the store unchanged.  The
  preflight answers 200 to every request.
\<close>

theorem unauthenticated_request_status:
  "(ep \<noteq> Preflight \<and> auth_header req = None \<longrightarrow>
      status (fst (handle ep env req db)) = 401)
   \<and> (ep \<noteq> Preflight \<and> \<not> header_accepted ep (auth_header req) \<longrightarrow>
        status (fst (handle ep env req db)) = 401 \<and> snd (handle ep env req db) = db)
   \<and> (ep \<noteq> Preflight \<and> header_accepted ep (auth_header req)
        \<and> verify_token env (header_token (auth_header req)) = None \<longrightarrow>
        status (fst (handle ep env req db)) = 500 \<and> snd (handle ep env req db) = db)
   \<and> status (fst (handle Preflight env req db)) = 200"
proof (cases "ep = Preflight")
  case True
  then show ?thesis by (simp add: OPTIONS_def resp_def)
next
  case False
  from header_refused [OF False, of req env db] token_refused [OF False, of req env db]
    status_rejection [of ep] absent_header_not_accepted [of ep]
  show ?thesis by (auto simp: error500_def resp_def OPTIONS_def)
qed

theorem unauthenticated_request_status_witness:
  "status (fst (handle (Resource Payees POST) demo_env
      \<lparr>auth_header = None, body = Some (JObj [(''payee_name'', JStr ''Eve'')])\<rparr> demo_db)) = 401
   \<and> \<not> header_accepted (Resource Subscriptions DELETE) (Some ''Token alice'')
   \<and> status (fst (handle (Resource Subscriptions DELETE) demo_env
      \<lparr>auth_header = Some ''Token alice'', body = Some (JObj [(''id'', JNum 1)])\<rparr> demo_db)) = 401
   \<and> header_accepted DeleteUser (Some ''Bearer stale'')
   \<and> verify_token demo_env (header_token (Some ''Bearer stale'')) = None
   \<and> status (fst (handle DeleteUser demo_env
      \<lparr>auth_header = Some ''Bearer stale'', body = None\<rparr> demo_db)) = 500"
  using
    unauthenticated_request_status [of "Resource Payees POST"
      "\<lparr>auth_header = None, body = Some (JObj [(''payee_name'', JStr ''Eve'')])\<rparr>"
      demo_env demo_db]
    unauthenticated_request_status [of "Resource Subscriptions DELETE"
      "\<lparr>auth_header = Some ''Token alice'', body = Some (JObj [(''id'', JNum 1)])\<rparr>"
      demo_env demo_db]
    unauthenticated_request_status [of DeleteUser
      "\<lparr>auth_header = Some ''Bearer stale'', body = None\<rparr>" demo_env demo_db]
  by (simp add: guard_defs demo_env_def demo_verify_def)


subsection \<open>Required fields\<close>

text \<open>
  C8, as the spec has it: every Create or Update request that lacks a required
  field is answered 400.  The required-field test comes after the auth guard and
  after the body is parsed and destructured.  Here Alice posts an entity with the
  body \<^verbatim>\<open>null\<close>, which has none of the fields: destructuring throws and the answer
  is 500.  The same fields missing, sent without an Authorization header: 401.
\<close>

theorem missing_field_not_always_400:
  "auth_guard demo_env (alice JNull) = Inr alice_claims
   \<and> parsed_body (alice JNull) = None
   \<and> status (fst (handle (Resource Entities POST) demo_env (alice JNull) demo_db)) = 500
   \<and> fld (JObj [(''entity_name'', JStr ''Initech'')]) ''category'' = None
   \<and> status (fst (handle (Resource Entities POST) demo_env
        \<lparr>auth_header = None, body = Some (JObj [(''entity_name'', JStr ''Initech'')])\<rparr>
        demo_db)) = 401"
  by (simp add: entities_POST_def run_defs)

lemma required_entities_POST:
  assumes "auth_guard env req = Inr decoded" "parsed_body req = Some b"
      and "f \<in> set (required_fields (Resource Entities POST))" "\<not> truthy (fld b f)"
  shows "status (fst (entities_POST env req db)) = 400 \<and> snd (entities_POST env req db) = db"
proof -
  from assms(3,4) have "\<not> truthy (fld b ''entity_name'') \<or> \<not> truthy (fld b ''entity_desc'')
     \<or> \<not> truthy (fld b ''entity_short_desc'') \<or> \<not> truthy (fld b ''category'')"
    by auto
  then show ?thesis using assms(1,2)
    by (simp add: entities_POST_def Let_def resp_def)
qed

lemma required_entities_PUT:
  assumes "auth_guard env req = Inr decoded" "parsed_body req = Some b"
      and "f \<in> set (required_fields (Resource Entities PUT))" "\<not> truthy (fld b f)"
  shows "status (fst (entities_PUT env req db)) = 400 \<and> snd (entities_PUT env req db) = db"
proof -
  from assms(3,4) have "\<not> truthy (fld b ''id'') \<or> \<not> truthy (fld b ''entity_name'')
     \<or> \<not> truthy (fld b ''entity_desc'') \<or> \<not> truthy (fld b ''entity_short_desc'')"
    by auto
  then show ?thesis using assms(1,2)
    by (simp add: entities_PUT_def Let_def resp_def)
qed

lemma required_services_POST:
  assumes "auth_guard env req = Inr decoded" "parsed_body req = Some b"
      and "f \<in> set (required_fields (Resource Services POST))" "\<not> truthy (fld b f)"
  shows "status (fst (services_POST env req db)) = 400 \<and> snd (services_POST env req db) = db"
proof -
  from assms(3,4) have "\<not> truthy (fld b ''service_name'') \<or> \<not> truthy (fld b ''service_desc'')
     \<or> \<not> truthy (fld b ''min_duration'') \<or> \<not> truthy (fld b ''amount'')
     \<or> \<not> truthy (fld b ''category'') \<or> \<not> truthy (fld b ''entity_name'')"
    by auto
  then show ?thesis using assms(1,2)
    by (simp add: services_POST_def Let_def resp_def)
qed

lemma required_services_PUT:
  assumes "auth_guard env req = Inr decoded" "parsed_body req = Some b"
      and "f \<in> set (required_fields (Resource Services PUT))" "\<not> truthy (fld b f)"
  shows "status (fst (services_PUT env req db)) = 400 \<and> snd (services_PUT env req db) = db"
proof -
  from assms(3,4) have "\<not> truthy (fld b ''id'') \<or> \<not> truthy (fld b ''entity_name'')"
    by auto
  then show ?thesis using assms(1,2)
    by (simp add: services_PUT_def Let_def resp_def)
qed

lemma required_payees_POST:
  assumes "auth_guard env req = Inr decoded" "parsed_body req = Some b"
      and "f \<in> set (required_fields (Resource Payees POST))" "\<not> truthy (fld b f)"
  shows "status (fst (payees_POST env req db)) = 400 \<and> snd (payees_POST env req db) = db"
proof -
  from assms(3,4) have "\<not> truthy (fld b ''entity_name'') \<or> \<not> truthy (fld b ''service_name'')
     \<or> \<not> truthy (fld b ''payee_name'') \<or> \<not> truthy (fld b ''phone'')
     \<or> \<not> truthy (fld b ''email'') \<or> \<not> truthy (fld b ''amount'')
     \<or> \<not> truthy (fld b ''category'')"
    by auto
  then show ?thesis using assms(1,2)
    by (simp add: payees_POST_def Let_def resp_def)
qed

lemma required_payees_PUT:
  assumes "auth_guard env req = Inr decoded" "parsed_body req = Some b"
      and "f \<in> set (required_fields (Resource Payees PUT))" "\<not> truthy (fld b f)"
  shows "status (fst (payees_PUT env req db)) = 400 \<and> snd (payees_PUT env req db) = db"
  using assms by (simp add: payees_PUT_def Let_def resp_def)

lemma required_subscriptions_POST:
  assumes "auth_guard env req = Inr decoded" "parsed_body req = Some b"
      and "f \<in> set (required_fields (Resource Subscriptions POST))" "\<not> truthy (fld b f)"
  shows "status (fst (subscriptions_POST env req db)) = 400
       \<and> snd (subscriptions_POST env req db) = db"
proof -
  from assms(3,4) have "\<not> truthy (fld b ''entity_name'') \<or> \<not> truthy (fld b ''service_name'')
     \<or> \<not> truthy (fld b ''payee_name'') \<or> \<not> truthy (fld b ''startDate'')
     \<or> \<not> truthy (fld b ''endDate'') \<or> \<not> truthy (fld b ''amount'')
     \<or> \<not> truthy (fld b ''paymentDate'') \<or> \<not> truthy (fld b ''category'')"
    by auto
  then show ?thesis using assms(1,2)
    by (simp add: subscriptions_POST_def Let_def resp_def)
qed

lemma required_subscriptions_PUT:
  assumes "auth_guard env req = Inr decoded" "parsed_body req = Some b"
      and "f \<in> set (required_fields (Resource Subscriptions PUT))" "\<not> truthy (fld b f)"
  shows "status (fst (subscriptions_PUT env req db)) = 400
       \<and> snd (subscriptions_PUT env req db) = db"
  using assms by (simp add: subscriptions_PUT_def Let_def resp_def)

lemma unparsed_body_500:
  assumes "required_fields ep \<noteq> []" "auth_guard env req = Inr decoded" "parsed_body req = None"
  shows "handle ep env req db = (error500, db)"
proof (cases ep)
  case (Resource res m)
  with assms show ?thesis by (cases res; cases m) (simp_all add: handler_defs)
qed (use assms in simp_all)

lemma auth_guard_Inl_status: "auth_guard env req = Inl r \<Longrightarrow> status r = 401 \<or> status r = 500"
  by (auto simp: auth_guard_def resp_def error500_def split: if_splits option.splits)

lemma alice_null_body [simp]: "parsed_body (alice JNull) = None"
  by (simp add: parsed_body_def alice_def)

lemma basic_header_rejected [simp]:
  "auth_guard env \<lparr>auth_header = Some ''Basic alice'', body = bd\<rparr>
   = Inl (resp 401 ''Authorization token is missing or invalid'')"
  by (simp add: guard_defs)

lemma required_fields_guarded:
  "required_fields ep \<noteq> [] \<Longrightarrow> \<not> user_route ep \<and> ep \<noteq> Preflight"
  by (cases ep) auto

text \<open>
  C8, amended: a Create or Update request that passes the auth guard, whose body
  parses to a JSON value other than \<^verbatim>\<open>null\<close> and lacks a field of the handler's
  required-field list (the field is absent or falsy), is answered 400.  When the
  body is absent or \<^verbatim>\<open>null\<close> the answer is 500, and when the request does not pass
  the auth guard it is the guard's 401 or 500.  In all three cases no row is
  inserted or modified.
\<close>

theorem missing_required_field_400:
  "(auth_guard env req = Inr decoded \<and> parsed_body req = Some b
      \<and> f \<in> set (required_fields ep) \<and> \<not> truthy (fld b f) \<longrightarrow>
      status (fst (handle ep env req db)) = 400 \<and> snd (handle ep env req db) = db)
   \<and> (required_fields ep \<noteq> [] \<and> auth_guard env req = Inr decoded \<and> parsed_body req = None \<longrightarrow>
      status (fst (handle ep env req db)) = 500 \<and> snd (handle ep env req db) = db)
   \<and> (required_fields ep \<noteq> [] \<and> auth_guard env req = Inl r \<longrightarrow>
      fst (handle ep env req db) = r \<and> (status r = 401 \<or> status r = 500)
      \<and> snd (handle ep env req db) = db)"
proof (intro conjI impI; elim conjE)
  assume a: "auth_guard env req = Inr decoded" "parsed_body req = Some b"
    "f \<in> set (required_fields ep)" "\<not> truthy (fld b f)"
  have "status (fst (handle ep env req db)) = 400 \<and> snd (handle ep env req db) = db"
  proof (cases ep)
    case (Resource res m)
    show ?thesis
    proof (cases res)
      case Entities
      with Resource a show ?thesis
        by (cases m) (simp_all add: required_entities_POST required_entities_PUT)
    next
      case Services
      with Resource a show ?thesis
        by (cases m) (simp_all add: required_services_POST required_services_PUT)
    next
      case Payees
      with Resource a show ?thesis
        by (cases m) (simp_all add: required_payees_POST required_payees_PUT)
    next
      case Subscriptions
      with Resource a show ?thesis
        by (cases m) (simp_all add: required_subscriptions_POST required_subscriptions_PUT)
    qed
  qed (use a in simp_all)
  then show "status (fst (handle ep env req db)) = 400" "snd (handle ep env req db) = db"
    by simp_all
next
  assume "required_fields ep \<noteq> []" "auth_guard env req = Inr decoded" "parsed_body req = None"
  from unparsed_body_500 [OF this]
  show "status (fst (handle ep env req db)) = 500" "snd (handle ep env req db) = db"
    by (simp_all add: error500_def resp_def)
next
  assume r: "required_fields ep \<noteq> []" and g: "auth_guard env req = Inl r"
  from required_fields_guarded [OF r] g have "handle ep env req db = (r, db)"
    by (simp add: guard_rejects)
  then show "fst (handle ep env req db) = r" "snd (handle ep env req db) = db" by simp_all
  from auth_guard_Inl_status [OF g] show "status r = 401 \<or> status r = 500" .
qed

theorem missing_required_field_400_witness:
  "auth_guard demo_env (alice (JObj [(''entity_name'', JStr ''Initech''), (''category'', JStr [])]))
     = Inr alice_claims
   \<and> \<not> truthy (fld (JObj [(''entity_name'', JStr ''Initech''), (''category'', JStr [])])
          ''category'')
   \<and> status (fst (handle (Resource Entities POST) demo_env
        (alice (JObj [(''entity_name'', JStr ''Initech''), (''category'', JStr [])])) demo_db))
      = 400
   \<and> snd (handle (Resource Entities POST) demo_env
        (alice (JObj [(''entity_name'', JStr ''Initech''), (''category'', JStr [])])) demo_db)
      = demo_db
   \<and> parsed_body (alice JNull) = None
   \<and> status (fst (handle (Resource Payees PUT) demo_env (alice JNull) demo_db)) = 500
   \<and> snd (handle (Resource Payees PUT) demo_env (alice JNull) demo_db) = demo_db
   \<and> status (fst (handle (Resource Services PUT) demo_env
        \<lparr>auth_header = Some ''Basic alice'', body = Some (JObj [(''id'', JNum 3)])\<rparr> demo_db))
      = 401
   \<and> snd (handle (Resource Services PUT) demo_env
        \<lparr>auth_header = Some ''Basic alice'', body = Some (JObj [(''id'', JNum 3)])\<rparr> demo_db)
      = demo_db"
  using
    missing_required_field_400 [where env = demo_env and decoded = alice_claims
      and req = "alice (JObj [(''entity_name'', JStr ''Initech''), (''category'', JStr [])])"
      and b = "JObj [(''entity_name'', JStr ''Initech''), (''category'', JStr [])]"
      and f = "''category''" and ep = "Resource Entities POST" and db = demo_db and r = error500]
    missing_required_field_400 [where env = demo_env and decoded = alice_claims
      and req = "alice JNull" and b = JNull and f = "''id''" and ep = "Resource Payees PUT"
      and db = demo_db and r = error500]
    missing_required_field_400 [where env = demo_env and decoded = alice_claims
      and req = "\<lparr>auth_header = Some ''Basic alice'', body = Some (JObj [(''id'', JNum 3)])\<rparr>"
      and b = "JObj [(''id'', JNum 3)]" and f = "''entity_name''"
      and ep = "Resource Services PUT" and db = demo_db
      and r = "resp 401 ''Authorization token is missing or invalid''"]
  by (simp add: fld_def resp_def)


subsection \<open>The header test\<close>

text \<open>
  C9, as the spec has it: every handler rejects a request whose Authorization
  header does not start with "Bearer ".  EditUser and DeleteUser do not look at
  the scheme: they take the second word of the header, whatever the first.  Here
  a PUT on EditUser with the header \<^verbatim>\<open>Basic alice\<close> is verified and carried out.
\<close>

theorem EditUser_accepts_any_scheme:
  "\<not> startsWith ''Basic alice'' ''Bearer ''
   \<and> status (fst (handle EditUser demo_env
        \<lparr>auth_header = Some ''Basic alice'',
         body = Some (JObj [(''name'', JStr ''Al''), (''email'', JStr ''al@x.org''),
                            (''phone'', JStr ''101''), (''username'', JStr ''alice''),
                            (''password'', JStr ''pw'')])\<rparr> demo_db)) = 200
   \<and> map u_name (users (snd (handle EditUser demo_env
        \<lparr>auth_header = Some ''Basic alice'',
         body = Some (JObj [(''name'', JStr ''Al''), (''email'', JStr ''al@x.org''),
                            (''phone'', JStr ''101''), (''username'', JStr ''alice''),
                            (''password'', JStr ''pw'')])\<rparr> demo_db))) = [JStr ''Al'', JStr ''Bob'']"
  by (simp add: EditUser_PUT_def guard_defs demo_env_def demo_verify_def demo_db_def
      parsed_body_def fld_def bindable_def param_def sql_eq_def sql_neq_def resp_def)

text \<open>
  C9, amended: every Entities, Services, Payees and Subscriptions handler answers
  401 to a request whose Authorization header is absent or does not start with
  "Bearer ", and EditUser and DeleteUser answer 401 to a request whose header is
  absent or has no non-empty second space-separated word (they do not test the
  scheme); in both cases the response and the untouched store are fixed before the
  token is verified and before any statement runs: they depend neither on the
  verifier nor on the store.
\<close>

theorem header_test_precedes_verification:
  assumes "ep \<noteq> Preflight"
  shows "(\<not> user_route ep
            \<and> (auth_header req = None
                \<or> (\<exists>a. auth_header req = Some a \<and> \<not> startsWith a ''Bearer '')) \<longrightarrow>
          handle ep env req db = (resp 401 ''Authorization token is missing or invalid'', db))
       \<and> (user_route ep
            \<and> (header_token (auth_header req) = None
                \<or> header_token (auth_header req) = Some []) \<longrightarrow>
          handle ep env req db = (resp 401 ''Authorization token is required'', db))"
proof (intro conjI impI)
  assume a: "\<not> user_route ep
     \<and> (auth_header req = None \<or> (\<exists>a. auth_header req = Some a \<and> \<not> startsWith a ''Bearer ''))"
  then have "\<not> header_accepted ep (auth_header req)"
    by (cases ep) (auto simp: bearer_header_def)
  moreover from a have "rejection ep = resp 401 ''Authorization token is missing or invalid''"
    by (cases ep) simp_all
  ultimately show "handle ep env req db
      = (resp 401 ''Authorization token is missing or invalid'', db)"
    using header_refused [OF assms, of req env db] by simp
next
  assume a: "user_route ep
     \<and> (header_token (auth_header req) = None \<or> header_token (auth_header req) = Some [])"
  then have "\<not> header_accepted ep (auth_header req)"
    by (cases ep) auto
  moreover from a have "rejection ep = resp 401 ''Authorization token is required''"
    by (cases ep) simp_all
  ultimately show "handle ep env req db = (resp 401 ''Authorization token is required'', db)"
    using header_refused [OF assms, of req env db] by simp
qed

theorem header_test_precedes_verification_witness:
  "\<not> startsWith ''Basic alice'' ''Bearer ''
   \<and> handle (Resource Services PUT) demo_env
        \<lparr>auth_header = Some ''Basic alice'', body = Some (JObj [(''id'', JNum 3)])\<rparr> demo_db
      = (resp 401 ''Authorization token is missing or invalid'', demo_db)
   \<and> header_token (Some ''Bearer'') = None
   \<and> handle EditUser demo_env \<lparr>auth_header = Some ''Bearer'', body = None\<rparr> demo_db
      = (resp 401 ''Authorization token is required'', demo_db)"
  using
    header_test_precedes_verification [of "Resource Services PUT"
      "\<lparr>auth_header = Some ''Basic alice'', body = Some (JObj [(''id'', JNum 3)])\<rparr>"
      demo_env demo_db]
    header_test_precedes_verification [of EditUser
      "\<lparr>auth_header = Some ''Bearer'', body = None\<rparr>" demo_env demo_db]
  by (simp add: startsWith_def header_token_def second_def)


subsection \<open>Unresolved names\<close>





















subsection \<open>Payees and Subscriptions: the owner written by PUT\<close>

text \<open>
  C10, as the spec has it: the token's user id is used only when the body omits
  user_id.  Here Alice (7) puts payee 1 with \<^verbatim>\<open>user_id: 0\<close> in the body: the field
  is there, and the row gets the token's id, since \<^verbatim>\<open>user_id || userId\<close> tests the
  value and not the key.
\<close>

theorem falsy_user_id_gets_token_id:
  "fld (JObj [(''id'', JNum 1), (''user_id'', JNum 0), (''payee_name'', JStr ''Carol''),
              (''phone'', JStr ''300''), (''email'', JStr ''c@x.org''), (''amount'', JNum 10),
              (''category'', JStr ''expense'')]) ''user_id'' = Some (JNum 0)
   \<and> c_user_id alice_claims = Some (JNum 7)
   \<and> map p_id (payees demo_db) = [JNum 1, JNum 2]
   \<and> map p_user_id (payees demo_db) = [JNum 8, JNum 7]
   \<and> status (fst (handle (Resource Payees PUT) demo_env
        (alice (JObj [(''id'', JNum 1), (''user_id'', JNum 0), (''payee_name'', JStr ''Carol''),
                      (''phone'', JStr ''300''), (''email'', JStr ''c@x.org''),
                      (''amount'', JNum 10), (''category'', JStr ''expense'')])) demo_db)) = 200
   \<and> map p_user_id (payees (snd (handle (Resource Payees PUT) demo_env
        (alice (JObj [(''id'', JNum 1), (''user_id'', JNum 0), (''payee_name'', JStr ''Carol''),
                      (''phone'', JStr ''300''), (''email'', JStr ''c@x.org''),
                      (''amount'', JNum 10), (''category'', JStr ''expense'')])) demo_db)))
      = [JNum 7, JNum 7]"
  by (simp add: payees_PUT_def run_defs)

lemma payees_PUT_200:
  assumes "auth_guard env req = Inr decoded" "parsed_body req = Some b"
      and "status (fst (payees_PUT env req db)) = 200"
  shows "payees (snd (payees_PUT env req db)) =
           map (\<lambda>r. if sql_eq (p_id r) (param env (fld b ''id''))
                     then r\<lparr>p_user_id := param env (js_or (fld b ''user_id'') (c_user_id decoded)),
                            p_entity_id := (if truthy (fld b ''entity_name'')
                               then first_col e_id (entities_named env (fld b ''entity_name'') db)
                               else JNull),
                            p_service_id := (if truthy (fld b ''service_name'')
                               then first_col s_id (services_named env (fld b ''service_name'') db)
                               else JNull),
                            p_payee_name := param env (fld b ''payee_name''),
                            p_phone := param env (fld b ''phone''),
                            p_email := param env (fld b ''email''),
                            p_amount := param env (fld b ''amount''),
                            p_category := param env (fld b ''category'')\<rparr>
                     else r)
             (payees db)"
  using assms
  by (simp add: payees_PUT_def Let_def resp_def error500_def split: if_splits)

lemma subscriptions_PUT_200:
  assumes "auth_guard env req = Inr decoded" "parsed_body req = Some b"
      and "status (fst (subscriptions_PUT env req db)) = 200"
  shows "subscriptions (snd (subscriptions_PUT env req db)) =
           map (\<lambda>r. if sql_eq (sub_id r) (param env (fld b ''id''))
                     then r\<lparr>sub_user_id :=
                              param env (js_or (fld b ''user_id'') (c_user_id decoded)),
                            sub_entity_id := (if truthy (fld b ''entity_name'')
                               then first_col e_id (entities_named env (fld b ''entity_name'') db)
                               else JNull),
                            sub_service_id := (if truthy (fld b ''service_name'')
                               then first_col s_id (services_named env (fld b ''service_name'') db)
                               else JNull),
                            sub_payee_id := (if truthy (fld b ''payee_name'')
                               then first_col p_id (payees_named env (fld b ''payee_name'') db)
                               else JNull),
                            sub_startDate := param env (fld b ''startDate''),
                            sub_endDate := param env (fld b ''endDate''),
                            sub_amount := param env (fld b ''amount''),
                            sub_paymentDate := param env (fld b ''paymentDate''),
                            sub_category := param env (fld b ''category'')\<rparr>
                     else r)
             (subscriptions db)"
  using assms
  by (simp add: subscriptions_PUT_def Let_def resp_def error500_def split: if_splits)

lemma param_js_or:
  "param env (js_or v w) = (if truthy v then param env v else param env w)"
  by (simp add: js_or_def)

lemma truthy_param: "truthy v \<Longrightarrow> Some (param env v) = v"
  by (cases v) (simp_all add: param_def)

text \<open>
  C10, amended: when a Payees or Subscriptions PUT is carried out (status 200),
  every row with the body's id keeps its id and has as its stored user_id the
  body's user_id if that is truthy, and the token's user id otherwise: when the
  body has no user_id, and also when it has one that is falsy.
\<close>

theorem put_writes_body_user_id:
  assumes "auth_guard env req = Inr decoded" "parsed_body req = Some b"
  shows "(status (fst (payees_PUT env req db)) = 200 \<longrightarrow>
            map p_id (payees (snd (payees_PUT env req db))) = map p_id (payees db)
            \<and> (\<forall>r \<in> set (payees (snd (payees_PUT env req db))).
                 sql_eq (p_id r) (param env (fld b ''id'')) \<longrightarrow>
                 (if truthy (fld b ''user_id'') then Some (p_user_id r) = fld b ''user_id''
                  else p_user_id r = param env (c_user_id decoded))))
       \<and> (status (fst (subscriptions_PUT env req db)) = 200 \<longrightarrow>
            map sub_id (subscriptions (snd (subscriptions_PUT env req db)))
              = map sub_id (subscriptions db)
            \<and> (\<forall>r \<in> set (subscriptions (snd (subscriptions_PUT env req db))).
                 sql_eq (sub_id r) (param env (fld b ''id'')) \<longrightarrow>
                 (if truthy (fld b ''user_id'') then Some (sub_user_id r) = fld b ''user_id''
                  else sub_user_id r = param env (c_user_id decoded))))"
proof (intro conjI impI)
  assume "status (fst (payees_PUT env req db)) = 200"
  note eq = payees_PUT_200 [OF assms this]
  show "map p_id (payees (snd (payees_PUT env req db))) = map p_id (payees db)"
    unfolding eq by (simp add: o_def cong: map_cong)
  show "\<forall>r \<in> set (payees (snd (payees_PUT env req db))).
          sql_eq (p_id r) (param env (fld b ''id'')) \<longrightarrow>
          (if truthy (fld b ''user_id'') then Some (p_user_id r) = fld b ''user_id''
           else p_user_id r = param env (c_user_id decoded))"
    unfolding eq by (auto simp: param_js_or truthy_param)
next
  assume "status (fst (subscriptions_PUT env req db)) = 200"
  note eq = subscriptions_PUT_200 [OF assms this]
  show "map sub_id (subscriptions (snd (subscriptions_PUT env req db)))
          = map sub_id (subscriptions db)"
    unfolding eq by (simp add: o_def cong: map_cong)
  show "\<forall>r \<in> set (subscriptions (snd (subscriptions_PUT env req db))).
          sql_eq (sub_id r) (param env (fld b ''id'')) \<longrightarrow>
          (if truthy (fld b ''user_id'') then Some (sub_user_id r) = fld b ''user_id''
           else sub_user_id r = param env (c_user_id decoded))"
    unfolding eq by (auto simp: param_js_or truthy_param)
qed

theorem put_writes_body_user_id_witness:
  "status (fst (payees_PUT demo_env
      (alice (JObj [(''id'', JNum 1), (''user_id'', JNum 9), (''payee_name'', JStr ''Carol''),
                    (''phone'', JStr ''300''), (''email'', JStr ''c@x.org''), (''amount'', JNum 10),
                    (''category'', JStr ''expense''), (''startDate'', JStr ''2025-01-01''),
                    (''endDate'', JStr ''2025-12-31''), (''paymentDate'', JStr ''2025-01-05'')]))
      demo_db)) = 200
   \<and> map p_user_id (payees (snd (payees_PUT demo_env
      (alice (JObj [(''id'', JNum 1), (''user_id'', JNum 9), (''payee_name'', JStr ''Carol''),
                    (''phone'', JStr ''300''), (''email'', JStr ''c@x.org''), (''amount'', JNum 10),
                    (''category'', JStr ''expense''), (''startDate'', JStr ''2025-01-01''),
                    (''endDate'', JStr ''2025-12-31''), (''paymentDate'', JStr ''2025-01-05'')]))
      demo_db))) = [JNum 9, JNum 7]
   \<and> status (fst (subscriptions_PUT demo_env
      (alice (JObj [(''id'', JNum 1), (''user_id'', JNum 9), (''payee_name'', JStr ''Carol''),
                    (''phone'', JStr ''300''), (''email'', JStr ''c@x.org''), (''amount'', JNum 10),
                    (''category'', JStr ''expense''), (''startDate'', JStr ''2025-01-01''),
                    (''endDate'', JStr ''2025-12-31''), (''paymentDate'', JStr ''2025-01-05'')]))
      demo_db)) = 200
   \<and> map sub_user_id (subscriptions (snd (subscriptions_PUT demo_env
      (alice (JObj [(''id'', JNum 1), (''user_id'', JNum 9), (''payee_name'', JStr ''Carol''),
                    (''phone'', JStr ''300''), (''email'', JStr ''c@x.org''), (''amount'', JNum 10),
                    (''category'', JStr ''expense''), (''startDate'', JStr ''2025-01-01''),
                    (''endDate'', JStr ''2025-12-31''), (''paymentDate'', JStr ''2025-01-05'')]))
      demo_db))) = [JNum 9]"
  using put_writes_body_user_id [of demo_env
      "alice (JObj [(''id'', JNum 1), (''user_id'', JNum 9), (''payee_name'', JStr ''Carol''),
                    (''phone'', JStr ''300''), (''email'', JStr ''c@x.org''), (''amount'', JNum 10),
                    (''category'', JStr ''expense''), (''startDate'', JStr ''2025-01-01''),
                    (''endDate'', JStr ''2025-12-31''), (''paymentDate'', JStr ''2025-01-05'')])"
      alice_claims
      "JObj [(''id'', JNum 1), (''user_id'', JNum 9), (''payee_name'', JStr ''Carol''),
             (''phone'', JStr ''300''), (''email'', JStr ''c@x.org''), (''amount'', JNum 10),
             (''category'', JStr ''expense''), (''startDate'', JStr ''2025-01-01''),
             (''endDate'', JStr ''2025-12-31''), (''paymentDate'', JStr ''2025-01-05'')]"
      demo_db]
  by (simp add: payees_PUT_def subscriptions_PUT_def run_defs)

text \<open>
  C5 says that a PUT on a row the caller does not own is answered 404 and
  modifies nothing.  Entities and Services test the owner; Payees and
  Subscriptions do not.  Here Alice (7) puts payee 1, which is Bob's (8): the
  answer is 200, and the row is rewritten and now hers.
\<close>

theorem payees_PUT_ignores_owner:
  "map p_id (payees demo_db) = [JNum 1, JNum 2]
   \<and> map p_user_id (payees demo_db) = [JNum 8, JNum 7]
   \<and> c_user_id alice_claims = Some (JNum 7)
   \<and> status (fst (handle (Resource Payees PUT) demo_env
        (alice (JObj [(''id'', JNum 1), (''payee_name'', JStr ''Mallory''),
                      (''phone'', JStr ''666''), (''email'', JStr ''m@x.org''),
                      (''amount'', JNum 1), (''category'', JStr ''expense'')])) demo_db)) = 200
   \<and> map p_user_id (payees (snd (handle (Resource Payees PUT) demo_env
        (alice (JObj [(''id'', JNum 1), (''payee_name'', JStr ''Mallory''),
                      (''phone'', JStr ''666''), (''email'', JStr ''m@x.org''),
                      (''amount'', JNum 1), (''category'', JStr ''expense'')])) demo_db)))
      = [JNum 7, JNum 7]
   \<and> map p_payee_name (payees (snd (handle (Resource Payees PUT) demo_env
        (alice (JObj [(''id'', JNum 1), (''payee_name'', JStr ''Mallory''),
                      (''phone'', JStr ''666''), (''email'', JStr ''m@x.org''),
                      (''amount'', JNum 1), (''category'', JStr ''expense'')])) demo_db)))
      = [JStr ''Mallory'', JStr ''Dave'']"
  by (simp add: payees_PUT_def run_defs)


subsection \<open>Deletes only remove rows\<close>

lemma delete_subscriptions_tables [simp]:
  "users (delete_subscriptions P db) = users db"
  "entities (delete_subscriptions P db) = entities db"
  "services (delete_subscriptions P db) = services db"
  "payees (delete_subscriptions P db) = payees db"
  "subscriptions (delete_subscriptions P db) = filter (\<lambda>r. \<not> P r) (subscriptions db)"
  by (simp_all add: delete_subscriptions_def)

lemma delete_payees_tables [simp]:
  "users (delete_payees env P db) = users db"
  "entities (delete_payees env P db) = entities db"
  "services (delete_payees env P db) = services db"
  "payees (delete_payees env P db) = filter (\<lambda>r. \<not> P r) (payees db)"
  by (simp_all add: delete_payees_def Let_def)

lemma delete_payees_subscriptions:
  "set (subscriptions (delete_payees env P db)) \<subseteq> set (subscriptions db)"
  by (auto simp: delete_payees_def Let_def)

lemma delete_services_tables [simp]:
  "users (delete_services env P db) = users db"
  "entities (delete_services env P db) = entities db"
  "services (delete_services env P db) = filter (\<lambda>r. \<not> P r) (services db)"
  by (simp_all add: delete_services_def Let_def)

lemma delete_services_payees:
  "set (payees (delete_services env P db)) \<subseteq> set (payees db)"
  by (auto simp: delete_services_def Let_def)

lemma delete_services_subscriptions:
  "set (subscriptions (delete_services env P db)) \<subseteq> set (subscriptions db)"
  by (auto simp: delete_services_def Let_def dest: subsetD [OF delete_payees_subscriptions])

lemma delete_entities_tables [simp]:
  "users (delete_entities env P db) = users db"
  "entities (delete_entities env P db) = filter (\<lambda>r. \<not> P r) (entities db)"
  by (simp_all add: delete_entities_def Let_def)

lemma delete_entities_services:
  "set (services (delete_entities env P db)) \<subseteq> set (services db)"
  by (auto simp: delete_entities_def Let_def)

lemma delete_entities_payees:
  "set (payees (delete_entities env P db)) \<subseteq> set (payees db)"
  by (auto simp: delete_entities_def Let_def dest: subsetD [OF delete_services_payees])

lemma delete_entities_subscriptions:
  "set (subscriptions (delete_entities env P db)) \<subseteq> set (subscriptions db)"
  by (auto simp: delete_entities_def Let_def
      dest!: subsetD [OF delete_payees_subscriptions] subsetD [OF delete_services_subscriptions])

text \<open>With the cascade, the rows that reference a deleted entity are gone.\<close>

lemma refs_deleted:
  assumes "e \<in> set es" "P e" "sql_eq fk (e_id e)"
  shows "refs fk (map e_id (filter P es))"
  using assms by (auto simp: refs_def list_ex_iff)

lemma cascade_entities_services:
  assumes "on_delete_cascade env" "r \<in> set (services (delete_entities env P db))"
  shows "\<not> refs (s_entity_id r) (map e_id (filter P (entities db)))"
  using assms by (auto simp: delete_entities_def Let_def)

lemma cascade_entities_payees:
  assumes "on_delete_cascade env" "r \<in> set (payees (delete_entities env P db))"
  shows "\<not> refs (p_entity_id r) (map e_id (filter P (entities db)))"
  using assms by (auto simp: delete_entities_def Let_def)

lemma cascade_entities_subscriptions:
  assumes "on_delete_cascade env" "r \<in> set (subscriptions (delete_entities env P db))"
  shows "\<not> refs (sub_entity_id r) (map e_id (filter P (entities db)))"
  using assms by (auto simp: delete_entities_def Let_def)


subsection \<open>Deleting an entity\<close>

text \<open>
  C6, as the spec has it: every successful DELETE of an entity removes the
  Services, Payees and Subscriptions that reference it.  The stand-alone Entities
  file deletes the entity alone.  Here, on a schema that does not cascade, Alice
  deletes her entity 1 through it: the answer is 200, entity 1 is gone, and
  service 3, payee 2 and subscription 1 still reference it.
\<close>

theorem standalone_entity_delete_leaves_dependents:
  "\<not> on_delete_cascade demo_env
   \<and> map e_id (entities demo_db) = [JNum 1, JNum 5]
   \<and> status (fst (handle Entities_DELETE_fk demo_env
        (alice (JObj [(''entity_id'', JNum 1)])) demo_db)) = 200
   \<and> map e_id (entities (snd (handle Entities_DELETE_fk demo_env
        (alice (JObj [(''entity_id'', JNum 1)])) demo_db))) = [JNum 5]
   \<and> map s_entity_id (services (snd (handle Entities_DELETE_fk demo_env
        (alice (JObj [(''entity_id'', JNum 1)])) demo_db))) = [JNum 1]
   \<and> map p_entity_id (payees (snd (handle Entities_DELETE_fk demo_env
        (alice (JObj [(''entity_id'', JNum 1)])) demo_db))) = [JNum 5, JNum 1]
   \<and> map sub_entity_id (subscriptions (snd (handle Entities_DELETE_fk demo_env
        (alice (JObj [(''entity_id'', JNum 1)])) demo_db))) = [JNum 1]"
  by (simp add: entities_DELETE_fk_def delete_entities_def run_defs)

lemma take_1_member: "take (Suc 0) xs = x # rest \<Longrightarrow> x \<in> set xs"
  by (cases xs) simp_all

lemma first_match:
  assumes "take (Suc 0) (filter P xs) = x # rest"
  shows "x \<in> set xs \<and> P x"
  using take_1_member [OF assms] by simp

lemma distinct_map_eq:
  assumes "distinct (map f xs)" "x \<in> set xs" "y \<in> set xs" "f x = f y"
  shows "x = y"
  using assms by (meson distinct_map inj_onD)

lemma entities_DELETE_200:
  assumes "auth_guard env req = Inr decoded" "parsed_body req = Some b"
      and "status (fst (entities_DELETE env req db)) = 200"
  shows "(\<exists>ex \<in> set (entities db). sql_eq (e_id ex) (param env (fld b ''entity_id''))
            \<and> sql_eq (e_user_id ex) (param env (c_user_id decoded)))
       \<and> snd (entities_DELETE env req db) =
           delete_entities env
             (\<lambda>e. sql_eq (e_id e) (param env (fld b ''entity_id''))
                  \<and> sql_eq (e_user_id e) (param env (c_user_id decoded)))
             (delete_subscriptions (\<lambda>r. sql_eq (sub_entity_id r) (param env (fld b ''entity_id'')))
               (delete_payees env (\<lambda>r. sql_eq (p_entity_id r) (param env (fld b ''entity_id'')))
                 (delete_services env
                    (\<lambda>r. sql_eq (s_entity_id r) (param env (fld b ''entity_id''))) db)))"
  using assms
  by (auto simp: entities_DELETE_def Let_def resp_def error500_def
      split: if_splits list.splits dest: first_match)

lemma entities_DELETE_fk_200:
  assumes "auth_guard env req = Inr decoded" "parsed_body req = Some b"
      and "status (fst (entities_DELETE_fk env req db)) = 200"
  shows "(\<exists>ex \<in> set (entities db). sql_eq (e_id ex) (param env (fld b ''entity_id''))
            \<and> sql_eq (e_user_id ex) (param env (c_user_id decoded)))
       \<and> snd (entities_DELETE_fk env req db) =
           delete_entities env (\<lambda>e. sql_eq (e_id e) (param env (fld b ''entity_id''))) db"
  using assms
  by (auto simp: entities_DELETE_fk_def Let_def resp_def error500_def
      split: if_splits list.splits dest: first_match)

lemma left_join_member:
  assumes "e \<in> set (left_join P xs)"
  shows "e = None \<or> (\<exists>x \<in> set xs. e = Some x \<and> P x)"
proof (cases "filter P xs")
  case Nil
  with assms show ?thesis by (simp add: left_join_def)
next
  case (Cons y ys)
  with assms have "e \<in> Some ` set (filter P xs)" by (simp add: left_join_def)
  then show ?thesis by auto
qed

lemma auth_guard_Inl_data: "auth_guard env req = Inl r \<Longrightarrow> data r = NoData"
  by (auto simp: auth_guard_def resp_def error500_def split: if_splits option.splits)

text \<open>The entity_id a List shows is that of the row listed, or NULL.\<close>

lemma listed_resp [simp]: "listed (resp st m) = []" "listed error500 = []"
  by (simp_all add: listed_def resp_def error500_def)

lemma listed_Listed [simp]: "listed \<lparr>status = st, message = m, data = Listed rows\<rparr> = rows"
  by (simp add: listed_def)

lemma listed_auth_guard: "auth_guard env req = Inl r \<Longrightarrow> listed r = []"
  by (simp add: listed_def auth_guard_Inl_data)

lemma services_GET_row:
  assumes "row \<in> set (listed (fst (services_GET env req db)))"
  shows "\<exists>r \<in> set (services db). \<exists>u \<in> set (users db).
           \<exists>e \<in> set (left_join (\<lambda>e. sql_eq (s_entity_id r) (e_id e)) (entities db)).
           sql_eq (s_user_id r) (u_sr u)
           \<and> (\<exists>decoded. auth_guard env req = Inr decoded
                 \<and> sql_eq (u_sr u) (param env (c_user_id decoded)))
           \<and> row = service_obj r @
                [(''username'', u_username u), (''user_id'', u_sr u),
                 (''entity_id'', col e_id e), (''entity_name'', col e_entity_name e)]"
proof (cases "auth_guard env req")
  case (Inl r)
  with assms show ?thesis by (simp add: services_GET_def listed_auth_guard)
next
  case (Inr decoded)
  with assms show ?thesis
    by (simp add: services_GET_def Let_def split: if_splits) blast+
qed


lemma payees_GET_row:
  assumes "row \<in> set (listed (fst (payees_GET env req db)))"
  shows "\<exists>r \<in> set (payees db). \<exists>u \<in> set (users db).
           \<exists>e \<in> set (left_join (\<lambda>e. sql_eq (p_entity_id r) (e_id e)) (entities db)).
           \<exists>sv \<in> set (left_join (\<lambda>x. sql_eq (p_service_id r) (s_id x)) (services db)).
           sql_eq (p_user_id r) (u_sr u)
           \<and> (\<exists>decoded. auth_guard env req = Inr decoded
                 \<and> sql_eq (u_sr u) (param env (c_user_id decoded)))
           \<and> row = payee_obj r @
                [(''username'', u_username u), (''user_id'', u_sr u),
                 (''entity_id'', col e_id e), (''entity_name'', col e_entity_name e),
                 (''service_id'', col s_id sv), (''service_name'', col s_service_name sv)]"
proof (cases "auth_guard env req")
  case (Inl r)
  with assms show ?thesis by (simp add: payees_GET_def listed_auth_guard)
next
  case (Inr decoded)
  with assms show ?thesis
    by (simp add: payees_GET_def Let_def split: if_splits) blast+
qed

lemma subscriptions_GET_row:
  assumes "row \<in> set (listed (fst (subscriptions_GET env req db)))"
  shows "\<exists>r \<in> set (subscriptions db). \<exists>u \<in> set (users db).
           \<exists>e \<in> set (left_join (\<lambda>e. sql_eq (sub_entity_id r) (e_id e)) (entities db)).
           \<exists>sv \<in> set (left_join (\<lambda>x. sql_eq (sub_service_id r) (s_id x)) (services db)).
           \<exists>py \<in> set (left_join (\<lambda>x. sql_eq (sub_payee_id r) (p_id x)) (payees db)).
           sql_eq (sub_user_id r) (u_sr u)
           \<and> (\<exists>decoded. auth_guard env req = Inr decoded
                 \<and> sql_eq (u_sr u) (param env (c_user_id decoded)))
           \<and> row = subscription_obj r @
                [(''username'', u_username u), (''user_id'', u_sr u),
                 (''entity_id'', col e_id e), (''entity_name'', col e_entity_name e),
                 (''service_id'', col s_id sv), (''service_name'', col s_service_name sv),
                 (''service_duration'', col s_min_duration sv),
                 (''payee_name'', col p_payee_name py), (''payee_email'', col p_email py),
                 (''payee_phone'', col p_phone py)]"
proof (cases "auth_guard env req")
  case (Inl r)
  with assms show ?thesis by (simp add: subscriptions_GET_def listed_auth_guard)
next
  case (Inr decoded)
  with assms show ?thesis
    by (simp add: subscriptions_GET_def Let_def split: if_splits) blast+
qed

lemma joined_entity_id:
  assumes "e \<in> set (left_join (\<lambda>e. sql_eq fk (e_id e)) es)"
  shows "col e_id e = JNull \<or> col e_id e = fk"
  using left_join_member [OF assms] by (auto simp: col_def sql_eq_def)

lemma services_GET_entity_id:
  assumes "row \<in> set (listed (fst (services_GET env req db)))"
  shows "\<exists>r \<in> set (services db). fld (JObj row) ''entity_id'' = Some JNull
           \<or> fld (JObj row) ''entity_id'' = Some (s_entity_id r)"
proof -
  from services_GET_row [OF assms] obtain r and u :: user_row and e where
    r: "r \<in> set (services db)"
    and e: "e \<in> set (left_join (\<lambda>e. sql_eq (s_entity_id r) (e_id e)) (entities db))"
    and row: "row = service_obj r @
                [(''username'', u_username u), (''user_id'', u_sr u),
                 (''entity_id'', col e_id e), (''entity_name'', col e_entity_name e)]"
    by blast
  from row have "fld (JObj row) ''entity_id'' = Some (col e_id e)"
    by (simp add: fld_def)
  with joined_entity_id [OF e] r show ?thesis by auto
qed

lemma payees_GET_entity_id:
  assumes "row \<in> set (listed (fst (payees_GET env req db)))"
  shows "\<exists>r \<in> set (payees db). fld (JObj row) ''entity_id'' = Some JNull
           \<or> fld (JObj row) ''entity_id'' = Some (p_entity_id r)"
proof -
  from payees_GET_row [OF assms] obtain r and u :: user_row and e and sv :: "service_row option" where
    r: "r \<in> set (payees db)"
    and e: "e \<in> set (left_join (\<lambda>e. sql_eq (p_entity_id r) (e_id e)) (entities db))"
    and row: "row = payee_obj r @
                [(''username'', u_username u), (''user_id'', u_sr u),
                 (''entity_id'', col e_id e), (''entity_name'', col e_entity_name e),
                 (''service_id'', col s_id sv), (''service_name'', col s_service_name sv)]"
    by blast
  from row have "fld (JObj row) ''entity_id'' = Some (col e_id e)"
    by (simp add: fld_def)
  with joined_entity_id [OF e] r show ?thesis by auto
qed

lemma subscriptions_GET_entity_id:
  assumes "row \<in> set (listed (fst (subscriptions_GET env req db)))"
  shows "\<exists>r \<in> set (subscriptions db). fld (JObj row) ''entity_id'' = Some JNull
           \<or> fld (JObj row) ''entity_id'' = Some (sub_entity_id r)"
proof -
  from subscriptions_GET_row [OF assms] obtain r and u :: user_row and e and sv :: "service_row option"
    and py :: "payee_row option" where
    r: "r \<in> set (subscriptions db)"
    and e: "e \<in> set (left_join (\<lambda>e. sql_eq (sub_entity_id r) (e_id e)) (entities db))"
    and row: "row = subscription_obj r @
                [(''username'', u_username u), (''user_id'', u_sr u),
                 (''entity_id'', col e_id e), (''entity_name'', col e_entity_name e),
                 (''service_id'', col s_id sv), (''service_name'', col s_service_name sv),
                 (''service_duration'', col s_min_duration sv),
                 (''payee_name'', col p_payee_name py), (''payee_email'', col p_email py),
                 (''payee_phone'', col p_phone py)]"
    by blast
  from row have "fld (JObj row) ''entity_id'' = Some (col e_id e)"
    by (simp add: fld_def)
  with joined_entity_id [OF e] r show ?thesis by auto
qed

lemma entity_delete_tables:
  assumes "ep = Resource Entities DELETE \<or> ep = Entities_DELETE_fk \<and> on_delete_cascade env"
      and "auth_guard env req = Inr decoded" "parsed_body req = Some b"
      and "status (fst (handle ep env req db)) = 200"
  shows "param env (fld b ''entity_id'') \<noteq> JNull"
    and "\<forall>r \<in> set (services (snd (handle ep env req db))).
           \<not> sql_eq (s_entity_id r) (param env (fld b ''entity_id''))"
    and "\<forall>r \<in> set (payees (snd (handle ep env req db))).
           \<not> sql_eq (p_entity_id r) (param env (fld b ''entity_id''))"
    and "\<forall>r \<in> set (subscriptions (snd (handle ep env req db))).
           \<not> sql_eq (sub_entity_id r) (param env (fld b ''entity_id''))"
    and "\<forall>e \<in> set (entities (snd (handle ep env req db))).
           \<not> (sql_eq (e_id e) (param env (fld b ''entity_id''))
              \<and> sql_eq (e_user_id e) (param env (c_user_id decoded)))"
proof -
  let ?eid = "param env (fld b ''entity_id'')"
  from assms(1) show "?eid \<noteq> JNull"
    "\<forall>r \<in> set (services (snd (handle ep env req db))). \<not> sql_eq (s_entity_id r) ?eid"
    "\<forall>r \<in> set (payees (snd (handle ep env req db))). \<not> sql_eq (p_entity_id r) ?eid"
    "\<forall>r \<in> set (subscriptions (snd (handle ep env req db))). \<not> sql_eq (sub_entity_id r) ?eid"
    "\<forall>e \<in> set (entities (snd (handle ep env req db))).
       \<not> (sql_eq (e_id e) ?eid \<and> sql_eq (e_user_id e) (param env (c_user_id decoded)))"
  proof (atomize (full), elim disjE conjE, goal_cases)
    case 1
    with assms(4) have st: "status (fst (entities_DELETE env req db)) = 200" by simp
    note h = entities_DELETE_200 [OF assms(2,3) st]
    from h obtain ex :: entity_row where ex: "sql_eq (e_id ex) ?eid" by blast
    have null: "?eid \<noteq> JNull" using ex by (simp add: sql_eq_def)
    have db': "snd (handle ep env req db) =
           delete_entities env
             (\<lambda>e. sql_eq (e_id e) ?eid \<and> sql_eq (e_user_id e) (param env (c_user_id decoded)))
             (delete_subscriptions (\<lambda>r. sql_eq (sub_entity_id r) ?eid)
               (delete_payees env (\<lambda>r. sql_eq (p_entity_id r) ?eid)
                 (delete_services env (\<lambda>r. sql_eq (s_entity_id r) ?eid) db)))"
      using h 1 by simp
    have s: "\<forall>r \<in> set (services (snd (handle ep env req db))). \<not> sql_eq (s_entity_id r) ?eid"
      unfolding db' using delete_entities_services by fastforce
    have p: "\<forall>r \<in> set (payees (snd (handle ep env req db))). \<not> sql_eq (p_entity_id r) ?eid"
      unfolding db' using delete_entities_payees by fastforce
    have u: "\<forall>r \<in> set (subscriptions (snd (handle ep env req db))).
               \<not> sql_eq (sub_entity_id r) ?eid"
      unfolding db' using delete_entities_subscriptions by fastforce
    have e: "\<forall>e \<in> set (entities (snd (handle ep env req db))).
       \<not> (sql_eq (e_id e) ?eid \<and> sql_eq (e_user_id e) (param env (c_user_id decoded)))"
      unfolding db' by simp
    from null s p u e show ?case by blast
  next
    case 2
    with assms(4) have st: "status (fst (entities_DELETE_fk env req db)) = 200" by simp
    note h = entities_DELETE_fk_200 [OF assms(2,3) st]
    from h obtain ex where ex: "ex \<in> set (entities db)" "sql_eq (e_id ex) ?eid" by blast
    have null: "?eid \<noteq> JNull" and id: "e_id ex = ?eid" using ex by (simp_all add: sql_eq_def)
    have db': "snd (handle ep env req db) = delete_entities env (\<lambda>e. sql_eq (e_id e) ?eid) db"
      using h 2 by simp
    have gone: "refs fk (map e_id (filter (\<lambda>e. sql_eq (e_id e) ?eid) (entities db)))"
      if "sql_eq fk ?eid" for fk
      using refs_deleted [of ex "entities db" "\<lambda>e. sql_eq (e_id e) ?eid" fk] ex id that by simp
    have s: "\<forall>r \<in> set (services (snd (handle ep env req db))). \<not> sql_eq (s_entity_id r) ?eid"
      unfolding db' using cascade_entities_services [OF 2(2)] gone by blast
    have p: "\<forall>r \<in> set (payees (snd (handle ep env req db))). \<not> sql_eq (p_entity_id r) ?eid"
      unfolding db' using cascade_entities_payees [OF 2(2)] gone by blast
    have u: "\<forall>r \<in> set (subscriptions (snd (handle ep env req db))).
               \<not> sql_eq (sub_entity_id r) ?eid"
      unfolding db' using cascade_entities_subscriptions [OF 2(2)] gone by blast
    have e: "\<forall>e \<in> set (entities (snd (handle ep env req db))).
       \<not> (sql_eq (e_id e) ?eid \<and> sql_eq (e_user_id e) (param env (c_user_id decoded)))"
      unfolding db' by simp
    from null s p u e show ?case by blast
  qed
qed

lemma entity_delete_entity:
  assumes "ep = Resource Entities DELETE \<or> ep = Entities_DELETE_fk"
      and "auth_guard env req = Inr decoded" "parsed_body req = Some b"
      and "status (fst (handle ep env req db)) = 200"
  shows "\<exists>ex \<in> set (entities db). sql_eq (e_id ex) (param env (fld b ''entity_id''))
            \<and> sql_eq (e_user_id ex) (param env (c_user_id decoded))"
    and "\<forall>e \<in> set (entities (snd (handle ep env req db))).
           \<not> (sql_eq (e_id e) (param env (fld b ''entity_id''))
              \<and> sql_eq (e_user_id e) (param env (c_user_id decoded)))"
    and "ep = Entities_DELETE_fk \<Longrightarrow>
           \<forall>e \<in> set (entities (snd (handle ep env req db))).
             \<not> sql_eq (e_id e) (param env (fld b ''entity_id''))"
    and "ep = Entities_DELETE_fk \<Longrightarrow> \<not> on_delete_cascade env \<Longrightarrow>
           services (snd (handle ep env req db)) = services db
           \<and> payees (snd (handle ep env req db)) = payees db
           \<and> subscriptions (snd (handle ep env req db)) = subscriptions db"
proof -
  let ?eid = "param env (fld b ''entity_id'')"
  let ?uid = "param env (c_user_id decoded)"
  from assms(1) have
    "(\<exists>ex \<in> set (entities db). sql_eq (e_id ex) ?eid \<and> sql_eq (e_user_id ex) ?uid)
     \<and> (\<forall>e \<in> set (entities (snd (handle ep env req db))).
           \<not> (sql_eq (e_id e) ?eid \<and> sql_eq (e_user_id e) ?uid))
     \<and> (ep = Entities_DELETE_fk \<longrightarrow>
           (\<forall>e \<in> set (entities (snd (handle ep env req db))). \<not> sql_eq (e_id e) ?eid))
     \<and> (ep = Entities_DELETE_fk \<and> \<not> on_delete_cascade env \<longrightarrow>
           services (snd (handle ep env req db)) = services db
           \<and> payees (snd (handle ep env req db)) = payees db
           \<and> subscriptions (snd (handle ep env req db)) = subscriptions db)"
  proof
    assume ep: "ep = Resource Entities DELETE"
    with assms(4) have st: "status (fst (entities_DELETE env req db)) = 200" by simp
    note h = entities_DELETE_200 [OF assms(2,3) st]
    from h have "\<forall>e \<in> set (entities (snd (entities_DELETE env req db))).
           \<not> (sql_eq (e_id e) ?eid \<and> sql_eq (e_user_id e) ?uid)"
      by simp
    with h ep show ?thesis by simp
  next
    assume ep: "ep = Entities_DELETE_fk"
    with assms(4) have st: "status (fst (entities_DELETE_fk env req db)) = 200" by simp
    note h = entities_DELETE_fk_200 [OF assms(2,3) st]
    from h have db': "snd (entities_DELETE_fk env req db)
                      = delete_entities env (\<lambda>e. sql_eq (e_id e) ?eid) db" by simp
    have e: "\<forall>e \<in> set (entities (snd (entities_DELETE_fk env req db))). \<not> sql_eq (e_id e) ?eid"
      unfolding db' by simp
    have t: "services (snd (entities_DELETE_fk env req db)) = services db
           \<and> payees (snd (entities_DELETE_fk env req db)) = payees db
           \<and> subscriptions (snd (entities_DELETE_fk env req db)) = subscriptions db"
      if "\<not> on_delete_cascade env"
      unfolding db' using that by (simp add: delete_entities_def)
    from h e t ep show ?thesis by simp
  qed
  then show
    "\<exists>ex \<in> set (entities db). sql_eq (e_id ex) ?eid \<and> sql_eq (e_user_id ex) ?uid"
    "\<forall>e \<in> set (entities (snd (handle ep env req db))).
           \<not> (sql_eq (e_id e) ?eid \<and> sql_eq (e_user_id e) ?uid)"
    "ep = Entities_DELETE_fk \<Longrightarrow>
           \<forall>e \<in> set (entities (snd (handle ep env req db))). \<not> sql_eq (e_id e) ?eid"
    "ep = Entities_DELETE_fk \<Longrightarrow> \<not> on_delete_cascade env \<Longrightarrow>
           services (snd (handle ep env req db)) = services db
           \<and> payees (snd (handle ep env req db)) = payees db
           \<and> subscriptions (snd (handle ep env req db)) = subscriptions db"
    by blast+
qed

lemma entity_delete_lists:
  assumes "ep = Resource Entities DELETE \<or> ep = Entities_DELETE_fk \<and> on_delete_cascade env"
      and "auth_guard env req = Inr decoded" "parsed_body req = Some b"
      and "status (fst (handle ep env req db)) = 200"
      and "res \<noteq> Entities"
      and "row \<in> set (listed (fst (handle (Resource res GET) env req'
                                    (snd (handle ep env req db)))))"
  shows "fld (JObj row) ''entity_id'' \<noteq> Some (param env (fld b ''entity_id''))"
proof -
  let ?db' = "snd (handle ep env req db)"
  note t = entity_delete_tables [OF assms(1-4)]
  show ?thesis
  proof (cases res)
    case Entities
    with assms(5) show ?thesis by simp
  next
    case Services
    with assms(6) have "row \<in> set (listed (fst (services_GET env req' ?db')))" by simp
    from services_GET_entity_id [OF this] t(1,2) show ?thesis
      by (auto simp: sql_eq_def)
  next
    case Payees
    with assms(6) have "row \<in> set (listed (fst (payees_GET env req' ?db')))" by simp
    from payees_GET_entity_id [OF this] t(1,3) show ?thesis
      by (auto simp: sql_eq_def)
  next
    case Subscriptions
    with assms(6) have "row \<in> set (listed (fst (subscriptions_GET env req' ?db')))" by simp
    from subscriptions_GET_entity_id [OF this] t(1,4) show ?thesis
      by (auto simp: sql_eq_def)
  qed
qed

text \<open>
  C6, amended: a successful DELETE of an entity removes the entity, which the
  caller owned.  The DELETE of the file that holds all four resources also removes
  the Services, Payees and Subscriptions that reference the entity's id, so that a
  List of any of them, whoever asks, shows no row for that entity.  The DELETE of
  the stand-alone Entities file deletes from the entities table alone: the
  dependent rows go only if the schema's foreign keys cascade, and on a schema
  that does not cascade the three dependent tables are left as they were.
\<close>

theorem entity_delete_removes_dependents:
  assumes "ep = Resource Entities DELETE \<or> ep = Entities_DELETE_fk"
      and "auth_guard env req = Inr decoded" "parsed_body req = Some b"
      and "status (fst (handle ep env req db)) = 200"
  shows "(\<exists>ex \<in> set (entities db). sql_eq (e_id ex) (param env (fld b ''entity_id''))
            \<and> sql_eq (e_user_id ex) (param env (c_user_id decoded)))
       \<and> (\<forall>e \<in> set (entities (snd (handle ep env req db))).
            \<not> (sql_eq (e_id e) (param env (fld b ''entity_id''))
               \<and> sql_eq (e_user_id e) (param env (c_user_id decoded))))
       \<and> (ep = Entities_DELETE_fk \<longrightarrow>
            (\<forall>e \<in> set (entities (snd (handle ep env req db))).
               \<not> sql_eq (e_id e) (param env (fld b ''entity_id''))))
       \<and> (ep = Resource Entities DELETE \<or> on_delete_cascade env \<longrightarrow>
            (\<forall>r \<in> set (services (snd (handle ep env req db))).
               \<not> sql_eq (s_entity_id r) (param env (fld b ''entity_id'')))
            \<and> (\<forall>r \<in> set (payees (snd (handle ep env req db))).
                 \<not> sql_eq (p_entity_id r) (param env (fld b ''entity_id'')))
            \<and> (\<forall>r \<in> set (subscriptions (snd (handle ep env req db))).
                 \<not> sql_eq (sub_entity_id r) (param env (fld b ''entity_id'')))
            \<and> (\<forall>res req'. res \<noteq> Entities \<longrightarrow>
                 (\<forall>row \<in> set (listed (fst (handle (Resource res GET) env req'
                                             (snd (handle ep env req db))))).
                    fld (JObj row) ''entity_id'' \<noteq> Some (param env (fld b ''entity_id'')))))
       \<and> (ep = Entities_DELETE_fk \<and> \<not> on_delete_cascade env \<longrightarrow>
            services (snd (handle ep env req db)) = services db
            \<and> payees (snd (handle ep env req db)) = payees db
            \<and> subscriptions (snd (handle ep env req db)) = subscriptions db)"
proof (intro conjI)
  note e = entity_delete_entity [OF assms]
  from e(1) show "\<exists>ex \<in> set (entities db). sql_eq (e_id ex) (param env (fld b ''entity_id''))
            \<and> sql_eq (e_user_id ex) (param env (c_user_id decoded))" .
  from e(2) show "\<forall>e \<in> set (entities (snd (handle ep env req db))).
            \<not> (sql_eq (e_id e) (param env (fld b ''entity_id''))
               \<and> sql_eq (e_user_id e) (param env (c_user_id decoded)))" .
  from e(3) show "ep = Entities_DELETE_fk \<longrightarrow>
            (\<forall>e \<in> set (entities (snd (handle ep env req db))).
               \<not> sql_eq (e_id e) (param env (fld b ''entity_id'')))" by blast
  from e(4) show "ep = Entities_DELETE_fk \<and> \<not> on_delete_cascade env \<longrightarrow>
            services (snd (handle ep env req db)) = services db
            \<and> payees (snd (handle ep env req db)) = payees db
            \<and> subscriptions (snd (handle ep env req db)) = subscriptions db" by blast
  show "ep = Resource Entities DELETE \<or> on_delete_cascade env \<longrightarrow>
            (\<forall>r \<in> set (services (snd (handle ep env req db))).
               \<not> sql_eq (s_entity_id r) (param env (fld b ''entity_id'')))
            \<and> (\<forall>r \<in> set (payees (snd (handle ep env req db))).
                 \<not> sql_eq (p_entity_id r) (param env (fld b ''entity_id'')))
            \<and> (\<forall>r \<in> set (subscriptions (snd (handle ep env req db))).
                 \<not> sql_eq (sub_entity_id r) (param env (fld b ''entity_id'')))
            \<and> (\<forall>res req'. res \<noteq> Entities \<longrightarrow>
                 (\<forall>row \<in> set (listed (fst (handle (Resource res GET) env req'
                                             (snd (handle ep env req db))))).
                    fld (JObj row) ''entity_id'' \<noteq> Some (param env (fld b ''entity_id''))))"
  proof
    assume "ep = Resource Entities DELETE \<or> on_delete_cascade env"
    with assms(1)
    have c: "ep = Resource Entities DELETE \<or> ep = Entities_DELETE_fk \<and> on_delete_cascade env"
      by blast
    note t = entity_delete_tables [OF c assms(2-4)]
    note l = entity_delete_lists [OF c assms(2-4)]
    from t(2-4) l show "(\<forall>r \<in> set (services (snd (handle ep env req db))).
               \<not> sql_eq (s_entity_id r) (param env (fld b ''entity_id'')))
            \<and> (\<forall>r \<in> set (payees (snd (handle ep env req db))).
                 \<not> sql_eq (p_entity_id r) (param env (fld b ''entity_id'')))
            \<and> (\<forall>r \<in> set (subscriptions (snd (handle ep env req db))).
                 \<not> sql_eq (sub_entity_id r) (param env (fld b ''entity_id'')))
            \<and> (\<forall>res req'. res \<noteq> Entities \<longrightarrow>
                 (\<forall>row \<in> set (listed (fst (handle (Resource res GET) env req'
                                             (snd (handle ep env req db))))).
                    fld (JObj row) ''entity_id'' \<noteq> Some (param env (fld b ''entity_id''))))"
      by blast
  qed
qed

lemma alice_authenticated_cascading [simp]:
  "auth_guard cascading_env (alice b) = Inr alice_claims"
  by (simp add: guard_defs alice_def cascading_env_def demo_verify_def alice_claims_def)

theorem entity_delete_removes_dependents_witness:
  "status (fst (handle (Resource Entities DELETE) demo_env
      (alice (JObj [(''entity_id'', JNum 1)])) demo_db)) = 200
   \<and> map s_entity_id (services demo_db) = [JNum 1]
   \<and> services (snd (handle (Resource Entities DELETE) demo_env
      (alice (JObj [(''entity_id'', JNum 1)])) demo_db)) = []
   \<and> map p_entity_id (payees (snd (handle (Resource Entities DELETE) demo_env
      (alice (JObj [(''entity_id'', JNum 1)])) demo_db))) = [JNum 5]
   \<and> subscriptions (snd (handle (Resource Entities DELETE) demo_env
      (alice (JObj [(''entity_id'', JNum 1)])) demo_db)) = []
   \<and> map e_id (entities (snd (handle (Resource Entities DELETE) demo_env
      (alice (JObj [(''entity_id'', JNum 1)])) demo_db))) = [JNum 5]
   \<and> status (fst (handle (Resource Services GET) demo_env (alice JNull)
        (snd (handle (Resource Entities DELETE) demo_env
          (alice (JObj [(''entity_id'', JNum 1)])) demo_db)))) = 404
   \<and> on_delete_cascade cascading_env
   \<and> status (fst (handle Entities_DELETE_fk cascading_env
      (alice (JObj [(''entity_id'', JNum 1)])) demo_db)) = 200
   \<and> services (snd (handle Entities_DELETE_fk cascading_env
      (alice (JObj [(''entity_id'', JNum 1)])) demo_db)) = []
   \<and> map p_entity_id (payees (snd (handle Entities_DELETE_fk cascading_env
      (alice (JObj [(''entity_id'', JNum 1)])) demo_db))) = [JNum 5]
   \<and> subscriptions (snd (handle Entities_DELETE_fk cascading_env
      (alice (JObj [(''entity_id'', JNum 1)])) demo_db)) = []
   \<and> map e_id (entities (snd (handle Entities_DELETE_fk cascading_env
      (alice (JObj [(''entity_id'', JNum 1)])) demo_db))) = [JNum 5]
   \<and> \<not> on_delete_cascade demo_env
   \<and> services (snd (handle Entities_DELETE_fk demo_env
      (alice (JObj [(''entity_id'', JNum 1)])) demo_db)) = services demo_db
   \<and> payees (snd (handle Entities_DELETE_fk demo_env
      (alice (JObj [(''entity_id'', JNum 1)])) demo_db)) = payees demo_db
   \<and> subscriptions (snd (handle Entities_DELETE_fk demo_env
      (alice (JObj [(''entity_id'', JNum 1)])) demo_db)) = subscriptions demo_db"
  using
    entity_delete_removes_dependents [of "Resource Entities DELETE" demo_env
      "alice (JObj [(''entity_id'', JNum 1)])" alice_claims "JObj [(''entity_id'', JNum 1)]" demo_db]
    entity_delete_removes_dependents [of Entities_DELETE_fk cascading_env
      "alice (JObj [(''entity_id'', JNum 1)])" alice_claims "JObj [(''entity_id'', JNum 1)]" demo_db]
    entity_delete_removes_dependents [of Entities_DELETE_fk demo_env
      "alice (JObj [(''entity_id'', JNum 1)])" alice_claims "JObj [(''entity_id'', JNum 1)]" demo_db]
  by (simp add: entities_DELETE_def entities_DELETE_fk_def services_GET_def delete_entities_def
      delete_services_def delete_payees_def delete_subscriptions_def refs_def cascading_env_def
      run_defs)


subsection \<open>Whose rows a handler touches\<close>


























lemma obj_user_id [simp]:
  "cell ''user_id'' (entity_obj e) = Some (e_user_id e)"
  "cell ''user_id'' (service_obj s) = Some (s_user_id s)"
  "cell ''user_id'' (payee_obj p) = Some (p_user_id p)"
  "cell ''user_id'' (subscription_obj u) = Some (sub_user_id u)"
  by (simp_all add: cell_def fld_def entity_obj_def service_obj_def payee_obj_def
      subscription_obj_def)










subsection \<open>The category\<close>

text \<open>
  C3, as the spec has it: wherever a category is accepted, the request is rejected
  with 400 unless the category is income or expense in some casing, and what is
  stored is lowercased.  Entities PUT (and Services PUT) skip the test when the
  category is falsy: with the empty string the update is carried out.  Payees and
  Subscriptions have no such test: a payee is created with the category Bonus,
  stored as it came.
\<close>

theorem category_not_always_checked:
  "fld (JObj [(''id'', JNum 1), (''entity_name'', JStr ''Acme''), (''entity_desc'', JStr ''d''),
              (''entity_short_desc'', JStr ''s''), (''category'', JStr [])]) ''category''
     = Some (JStr [])
   \<and> status (fst (handle (Resource Entities PUT) demo_env
        (alice (JObj [(''id'', JNum 1), (''entity_name'', JStr ''Acme''),
                      (''entity_desc'', JStr ''d''), (''entity_short_desc'', JStr ''s''),
                      (''category'', JStr [])])) demo_db)) = 200
   \<and> status (fst (handle (Resource Payees POST) demo_env
        (alice (JObj [(''entity_name'', JStr ''Acme''), (''service_name'', JStr ''Hosting''),
                      (''payee_name'', JStr ''Erin''), (''phone'', JStr ''500''),
                      (''email'', JStr ''e@x.org''), (''amount'', JNum 3),
                      (''category'', JStr ''Bonus'')])) demo_db)) = 201
   \<and> map p_category (payees (snd (handle (Resource Payees POST) demo_env
        (alice (JObj [(''entity_name'', JStr ''Acme''), (''service_name'', JStr ''Hosting''),
                      (''payee_name'', JStr ''Erin''), (''phone'', JStr ''500''),
                      (''email'', JStr ''e@x.org''), (''amount'', JNum 3),
                      (''category'', JStr ''Bonus'')])) demo_db)))
     = [JStr ''expense'', JStr ''income'', JStr ''Bonus'']"
  by (simp add: entities_PUT_def payees_POST_def run_defs)

lemma toLowerCase_string [simp]: "toLowerCase (Some (JStr s)) = Some (map lower_char s)"
  by (simp add: toLowerCase_def)

lemma entities_POST_category:
  assumes "auth_guard env req = Inr decoded" "parsed_body req = Some b"
      and "fld b ''category'' = Some (JStr s)" "s \<noteq> []"
  shows "\<not> allowed_category (map lower_char s) \<Longrightarrow>
           status (fst (entities_POST env req db)) = 400 \<and> snd (entities_POST env req db) = db"
    and "status (fst (entities_POST env req db)) = 200
         \<or> status (fst (entities_POST env req db)) = 201 \<Longrightarrow>
           allowed_category (map lower_char s)
           \<and> (\<forall>r \<in> set (entities (snd (entities_POST env req db))).
                r \<in> set (entities db) \<or> e_category r = JStr (map lower_char s))"
  using assms
  by (auto simp: entities_POST_def Let_def resp_def error500_def split: if_splits)

lemma services_POST_category:
  assumes "auth_guard env req = Inr decoded" "parsed_body req = Some b"
      and "fld b ''category'' = Some (JStr s)" "s \<noteq> []"
  shows "\<not> allowed_category (map lower_char s) \<Longrightarrow>
           status (fst (services_POST env req db)) = 400 \<and> snd (services_POST env req db) = db"
    and "status (fst (services_POST env req db)) = 200
         \<or> status (fst (services_POST env req db)) = 201 \<Longrightarrow>
           allowed_category (map lower_char s)
           \<and> (\<forall>r \<in> set (services (snd (services_POST env req db))).
                r \<in> set (services db) \<or> s_category r = JStr (map lower_char s))"
  using assms
  by (auto simp: services_POST_def Let_def resp_def error500_def split: if_splits list.splits)

lemma entities_PUT_category:
  assumes "auth_guard env req = Inr decoded" "parsed_body req = Some b"
      and "fld b ''category'' = Some (JStr s)" "s \<noteq> []"
  shows "\<not> allowed_category (map lower_char s) \<Longrightarrow>
           status (fst (entities_PUT env req db)) = 400 \<and> snd (entities_PUT env req db) = db"
    and "status (fst (entities_PUT env req db)) = 200
         \<or> status (fst (entities_PUT env req db)) = 201 \<Longrightarrow>
           allowed_category (map lower_char s)
           \<and> (\<forall>r \<in> set (entities (snd (entities_PUT env req db))).
                r \<in> set (entities db) \<or> e_category r = JStr (map lower_char s))"
  using assms
  by (auto simp: entities_PUT_def Let_def resp_def error500_def category_or_def
      split: if_splits list.splits)

lemma services_PUT_category:
  assumes "auth_guard env req = Inr decoded" "parsed_body req = Some b"
      and "fld b ''category'' = Some (JStr s)" "s \<noteq> []"
  shows "\<not> allowed_category (map lower_char s) \<Longrightarrow>
           status (fst (services_PUT env req db)) = 400 \<and> snd (services_PUT env req db) = db"
    and "status (fst (services_PUT env req db)) = 200
         \<or> status (fst (services_PUT env req db)) = 201 \<Longrightarrow>
           allowed_category (map lower_char s)
           \<and> (\<forall>r \<in> set (services (snd (services_PUT env req db))).
                r \<in> set (services db) \<or> s_category r = JStr (map lower_char s))"
  using assms
  by (auto simp: services_PUT_def Let_def resp_def error500_def category_or_def
      split: if_splits list.splits)


lemma entity_obj_category [simp]: "fld (JObj (entity_obj r)) ''category'' = Some (e_category r)"
  by (simp add: fld_def entity_obj_def)

lemma service_obj_category [simp]: "fld (JObj (service_obj r)) ''category'' = Some (s_category r)"
  by (simp add: fld_def service_obj_def)

lemma new_rows_category:
  assumes "\<forall>r \<in> set xs'. r \<in> set xs \<or> cat r = c"
      and "\<And>r. fld (JObj (obj r)) ''category'' = Some (cat r)"
  shows "\<forall>row \<in> set (map obj xs') - set (map obj xs). fld (JObj row) ''category'' = Some c"
  using assms by auto

lemma category_assembly:
  assumes A: "\<not> ok \<Longrightarrow> st = 400 \<and> db' = db"
      and B: "st = 200 \<or> st = 201 \<Longrightarrow> ok \<and> (\<forall>r \<in> set xs'. r \<in> set xs \<or> cat r = c)"
      and C: "\<And>r. fld (JObj (obj r)) ''category'' = Some (cat r)"
  shows "(\<not> ok \<longrightarrow> st = (400::nat) \<and> db' = db)
       \<and> (st = 200 \<or> st = 201 \<longrightarrow>
            ok \<and> (\<forall>row \<in> set (map obj xs') - set (map obj xs).
                    fld (JObj row) ''category'' = Some c))"
proof (intro conjI impI)
  assume "\<not> ok" then show "st = 400" "db' = db" using A by simp_all
next
  assume s: "st = 200 \<or> st = 201"
  from B [OF s] show ok ..
  from B [OF s] have "\<forall>r \<in> set xs'. r \<in> set xs \<or> cat r = c" ..
  from new_rows_category [OF this C]
  show "\<forall>row \<in> set (map obj xs') - set (map obj xs). fld (JObj row) ''category'' = Some c" .
qed

text \<open>
  C3, amended: on a Create or an Update of an Entity or a Service by an
  authenticated caller, a category that is a non-empty string is rejected with
  400, the store unchanged, unless its lowercase form is income or expense; and
  when the request succeeds, every row it wrote holds the lowercase form.
\<close>

theorem category_validated_and_lowercased:
  assumes "res = Entities \<or> res = Services" "m = POST \<or> m = PUT"
      and "auth_guard env req = Inr decoded" "parsed_body req = Some b"
      and "fld b ''category'' = Some (JStr s)" "s \<noteq> []"
  shows "(\<not> allowed_category (map lower_char s) \<longrightarrow>
            status (fst (handle (Resource res m) env req db)) = 400
            \<and> snd (handle (Resource res m) env req db) = db)
       \<and> (status (fst (handle (Resource res m) env req db)) = 200
            \<or> status (fst (handle (Resource res m) env req db)) = 201 \<longrightarrow>
            allowed_category (map lower_char s)
            \<and> (\<forall>row \<in> set (table_rows res (snd (handle (Resource res m) env req db)))
                        - set (table_rows res db).
                 fld (JObj row) ''category'' = Some (JStr (map lower_char s))))"
proof -
  note a = assms(3-6)
  from assms(1,2) consider
      "res = Entities" "m = POST" | "res = Entities" "m = PUT"
    | "res = Services" "m = POST" | "res = Services" "m = PUT"
    by blast
  then show ?thesis
  proof cases
    case 1
    show ?thesis unfolding 1 handle.simps table_rows.simps
      by (rule category_assembly [OF entities_POST_category [OF a] entity_obj_category])
  next
    case 2
    show ?thesis unfolding 2 handle.simps table_rows.simps
      by (rule category_assembly [OF entities_PUT_category [OF a] entity_obj_category])
  next
    case 3
    show ?thesis unfolding 3 handle.simps table_rows.simps
      by (rule category_assembly [OF services_POST_category [OF a] service_obj_category])
  next
    case 4
    show ?thesis unfolding 4 handle.simps table_rows.simps
      by (rule category_assembly [OF services_PUT_category [OF a] service_obj_category])
  qed
qed

theorem category_validated_and_lowercased_witness:
  "\<not> allowed_category (map lower_char ''Bonus'')
   \<and> status (fst (handle (Resource Entities POST) demo_env
        (alice (JObj [(''entity_name'', JStr ''Initech''), (''entity_desc'', JStr ''d''),
                      (''entity_short_desc'', JStr ''s''), (''category'', JStr ''Bonus'')]))
        demo_db)) = 400
   \<and> allowed_category (map lower_char ''Income'')
   \<and> status (fst (handle (Resource Entities POST) demo_env
        (alice (JObj [(''entity_name'', JStr ''Initech''), (''entity_desc'', JStr ''d''),
                      (''entity_short_desc'', JStr ''s''), (''category'', JStr ''Income'')]))
        demo_db)) = 201
   \<and> map e_category (entities (snd (handle (Resource Entities POST) demo_env
        (alice (JObj [(''entity_name'', JStr ''Initech''), (''entity_desc'', JStr ''d''),
                      (''entity_short_desc'', JStr ''s''), (''category'', JStr ''Income'')]))
        demo_db))) = [JStr ''income'', JStr ''expense'', JStr ''income'']"
  using
    category_validated_and_lowercased [of Entities POST demo_env
      "alice (JObj [(''entity_name'', JStr ''Initech''), (''entity_desc'', JStr ''d''),
                    (''entity_short_desc'', JStr ''s''), (''category'', JStr ''Bonus'')])"
      alice_claims
      "JObj [(''entity_name'', JStr ''Initech''), (''entity_desc'', JStr ''d''),
             (''entity_short_desc'', JStr ''s''), (''category'', JStr ''Bonus'')]"
      "''Bonus''" demo_db]
    category_validated_and_lowercased [of Entities POST demo_env
      "alice (JObj [(''entity_name'', JStr ''Initech''), (''entity_desc'', JStr ''d''),
                    (''entity_short_desc'', JStr ''s''), (''category'', JStr ''Income'')])"
      alice_claims
      "JObj [(''entity_name'', JStr ''Initech''), (''entity_desc'', JStr ''d''),
             (''entity_short_desc'', JStr ''s''), (''category'', JStr ''Income'')]"
      "''Income''" demo_db]
  by (simp add: entities_POST_def run_defs)


subsection \<open>What a PUT leaves as it was\<close>

text \<open>
  C4, as the spec has it: after a successful PUT on any resource, a field the body
  omits keeps its stored value.  Payees PUT (and Subscriptions PUT) write every
  column from the body: here Alice updates her payee 2 without entity_name and
  service_name, and its entity_id and service_id, 1 and 3 before, are NULL after.
\<close>

theorem payees_PUT_clears_omitted_fields:
  "map p_entity_id (payees demo_db) = [JNum 5, JNum 1]
   \<and> map p_service_id (payees demo_db) = [JNull, JNum 3]
   \<and> fld (JObj [(''id'', JNum 2), (''payee_name'', JStr ''Dave''), (''phone'', JStr ''400''),
                (''email'', JStr ''d@x.org''), (''amount'', JNum 45),
                (''category'', JStr ''income'')]) ''entity_name'' = None
   \<and> status (fst (handle (Resource Payees PUT) demo_env
        (alice (JObj [(''id'', JNum 2), (''payee_name'', JStr ''Dave''), (''phone'', JStr ''400''),
                      (''email'', JStr ''d@x.org''), (''amount'', JNum 45),
                      (''category'', JStr ''income'')])) demo_db)) = 200
   \<and> map p_entity_id (payees (snd (handle (Resource Payees PUT) demo_env
        (alice (JObj [(''id'', JNum 2), (''payee_name'', JStr ''Dave''), (''phone'', JStr ''400''),
                      (''email'', JStr ''d@x.org''), (''amount'', JNum 45),
                      (''category'', JStr ''income'')])) demo_db))) = [JNum 5, JNull]
   \<and> map p_service_id (payees (snd (handle (Resource Payees PUT) demo_env
        (alice (JObj [(''id'', JNum 2), (''payee_name'', JStr ''Dave''), (''phone'', JStr ''400''),
                      (''email'', JStr ''d@x.org''), (''amount'', JNum 45),
                      (''category'', JStr ''income'')])) demo_db))) = [JNull, JNull]"
  by (simp add: payees_PUT_def run_defs)

lemma entities_PUT_200:
  assumes "auth_guard env req = Inr decoded" "parsed_body req = Some b"
      and "status (fst (entities_PUT env req db)) = 200"
  shows "\<exists>ex rest new_category.
           take (Suc 0) (filter (\<lambda>e. sql_eq (e_id e) (param env (fld b ''id''))
                                    \<and> sql_eq (e_user_id e) (param env (c_user_id decoded)))
                           (entities db)) = ex # rest
           \<and> category_or (fld b ''category'') (e_category ex) = Some new_category
           \<and> snd (entities_PUT env req db) =
               db\<lparr>entities :=
                    map (\<lambda>e. if sql_eq (e_id e) (param env (fld b ''id''))
                                 \<and> sql_eq (e_user_id e) (param env (c_user_id decoded))
                              then e\<lparr>e_entity_name := param env (js_or (fld b ''entity_name'')
                                                                  (Some (e_entity_name ex))),
                                     e_entity_desc := param env (js_or (fld b ''entity_desc'')
                                                                  (Some (e_entity_desc ex))),
                                     e_entity_short_desc :=
                                       param env (js_or (fld b ''entity_short_desc'')
                                                    (Some (e_entity_short_desc ex))),
                                     e_category := new_category\<rparr>
                              else e)
                      (entities db)\<rparr>"
proof (cases "take (Suc 0) (filter (\<lambda>e. sql_eq (e_id e) (param env (fld b ''id''))
                                    \<and> sql_eq (e_user_id e) (param env (c_user_id decoded)))
                           (entities db))")
  case Nil
  with assms have False
    by (simp add: entities_PUT_def Let_def resp_def error500_def split: if_splits)
    then show ?thesis ..
next
  case (Cons ex rest)
  show ?thesis
  proof (cases "category_or (fld b ''category'') (e_category ex)")
    case None
    with Cons assms have False
      by (simp add: entities_PUT_def Let_def resp_def error500_def split: if_splits)
    then show ?thesis ..
  next
    case (Some new_category)
    from Some Cons assms have
      "truthy (fld b ''id'') \<and> truthy (fld b ''entity_name'') \<and> truthy (fld b ''entity_desc'')
       \<and> truthy (fld b ''entity_short_desc'')
       \<and> \<not> (truthy (fld b ''category'') \<and> toLowerCase (fld b ''category'') = None)
       \<and> \<not> (truthy (fld b ''category'')
              \<and> \<not> (case toLowerCase (fld b ''category'') of Some lc \<Rightarrow> allowed_category lc
                                                              | None \<Rightarrow> False))
       \<and> bindable env [fld b ''id'', c_user_id decoded]
       \<and> bindable env [js_or (fld b ''entity_name'') (Some (e_entity_name ex)),
                        js_or (fld b ''entity_desc'') (Some (e_entity_desc ex)),
                        js_or (fld b ''entity_short_desc'') (Some (e_entity_short_desc ex)),
                        Some new_category, fld b ''id'', c_user_id decoded]"
      by (simp add: entities_PUT_def Let_def resp_def error500_def split: if_splits)
    then have v: "truthy (fld b ''id'')" "truthy (fld b ''entity_name'')"
      "truthy (fld b ''entity_desc'')" "truthy (fld b ''entity_short_desc'')"
      "bindable env [fld b ''id'', c_user_id decoded]"
      "bindable env [js_or (fld b ''entity_name'') (Some (e_entity_name ex)),
                     js_or (fld b ''entity_desc'') (Some (e_entity_desc ex)),
                     js_or (fld b ''entity_short_desc'') (Some (e_entity_short_desc ex)),
                     Some new_category, fld b ''id'', c_user_id decoded]"
      and c: "truthy (fld b ''category'') \<Longrightarrow>
                \<exists>lc. toLowerCase (fld b ''category'') = Some lc \<and> allowed_category lc"
      by (auto split: option.splits)
    show ?thesis
    proof (cases "truthy (fld b ''category'')")
      case True
      with c obtain lc where "toLowerCase (fld b ''category'') = Some lc" "allowed_category lc"
        by blast
      with True v Some Cons assms(1,2) show ?thesis
        by (simp add: entities_PUT_def Let_def)
    next
      case False
      with v Some Cons assms(1,2) show ?thesis
        by (simp add: entities_PUT_def Let_def)
    qed
  qed
qed

lemma services_PUT_200:
  assumes "auth_guard env req = Inr decoded" "parsed_body req = Some b"
      and "status (fst (services_PUT env req db)) = 200"
  shows "\<exists>entity rest0 ex rest new_category.
           take (Suc 0) (entities_named env (fld b ''entity_name'') db) = entity # rest0
           \<and> take (Suc 0) (filter (\<lambda>r. sql_eq (s_id r) (param env (fld b ''id''))
                                      \<and> sql_eq (s_user_id r) (param env (c_user_id decoded))
                                      \<and> sql_eq (s_entity_id r) (e_id entity))
                             (services db)) = ex # rest
           \<and> category_or (fld b ''category'') (s_category ex) = Some new_category
           \<and> snd (services_PUT env req db) =
               db\<lparr>services :=
                    map (\<lambda>r. if sql_eq (s_id r) (param env (fld b ''id''))
                                 \<and> sql_eq (s_user_id r) (param env (c_user_id decoded))
                                 \<and> sql_eq (s_entity_id r) (e_id entity)
                              then r\<lparr>s_service_name := param env (js_or (fld b ''service_name'')
                                                                   (Some (s_service_name ex))),
                                     s_service_desc := param env (js_or (fld b ''service_desc'')
                                                                   (Some (s_service_desc ex))),
                                     s_min_duration := param env (js_or (fld b ''min_duration'')
                                                                   (Some (s_min_duration ex))),
                                     s_amount := param env (js_or (fld b ''amount'')
                                                             (Some (s_amount ex))),
                                     s_category := new_category\<rparr>
                              else r)
                      (services db)\<rparr>"
proof (cases "take (Suc 0) (entities_named env (fld b ''entity_name'') db)")
  case Nil
  with assms have False
    by (simp add: services_PUT_def Let_def resp_def error500_def split: if_splits)
    then show ?thesis ..
next
  case entity: (Cons entity rest0)
  show ?thesis
  proof (cases "take (Suc 0) (filter (\<lambda>r. sql_eq (s_id r) (param env (fld b ''id''))
                                      \<and> sql_eq (s_user_id r) (param env (c_user_id decoded))
                                      \<and> sql_eq (s_entity_id r) (e_id entity))
                             (services db))")
    case Nil
    with entity assms have False
      by (simp add: services_PUT_def Let_def resp_def error500_def split: if_splits)
    then show ?thesis ..
  next
    case (Cons ex rest)
    show ?thesis
    proof (cases "category_or (fld b ''category'') (s_category ex)")
      case None
      with Cons entity assms have False
        by (simp add: services_PUT_def Let_def resp_def error500_def split: if_splits)
    then show ?thesis ..
    next
      case (Some new_category)
      from Some Cons entity assms have
        "truthy (fld b ''id'') \<and> truthy (fld b ''entity_name'')
         \<and> \<not> (truthy (fld b ''category'') \<and> toLowerCase (fld b ''category'') = None)
         \<and> \<not> (truthy (fld b ''category'')
                \<and> \<not> (case toLowerCase (fld b ''category'') of Some lc \<Rightarrow> allowed_category lc
                                                                | None \<Rightarrow> False))
         \<and> bindable env [fld b ''entity_name'']
         \<and> bindable env [fld b ''id'', c_user_id decoded, Some (e_id entity)]
         \<and> bindable env [js_or (fld b ''service_name'') (Some (s_service_name ex)),
                          js_or (fld b ''service_desc'') (Some (s_service_desc ex)),
                          js_or (fld b ''min_duration'') (Some (s_min_duration ex)),
                          js_or (fld b ''amount'') (Some (s_amount ex)),
                          Some new_category, fld b ''id'', c_user_id decoded,
                          Some (e_id entity)]"
        by (simp add: services_PUT_def Let_def resp_def error500_def split: if_splits)
      then have v: "truthy (fld b ''id'')" "truthy (fld b ''entity_name'')"
        "bindable env [fld b ''entity_name'']"
        "bindable env [fld b ''id'', c_user_id decoded, Some (e_id entity)]"
        "bindable env [js_or (fld b ''service_name'') (Some (s_service_name ex)),
                       js_or (fld b ''service_desc'') (Some (s_service_desc ex)),
                       js_or (fld b ''min_duration'') (Some (s_min_duration ex)),
                       js_or (fld b ''amount'') (Some (s_amount ex)),
                       Some new_category, fld b ''id'', c_user_id decoded,
                       Some (e_id entity)]"
        and c: "truthy (fld b ''category'') \<Longrightarrow>
                  \<exists>lc. toLowerCase (fld b ''category'') = Some lc \<and> allowed_category lc"
        by (auto split: option.splits)
      show ?thesis
      proof (cases "truthy (fld b ''category'')")
        case True
        with c obtain lc where "toLowerCase (fld b ''category'') = Some lc" "allowed_category lc"
          by blast
        with True v Some Cons entity assms(1,2) show ?thesis
          by (simp add: services_PUT_def Let_def)
      next
        case False
        with v Some Cons entity assms(1,2) show ?thesis
          by (simp add: services_PUT_def Let_def)
      qed
    qed
  qed
qed

lemma entity_update_frame:
  assumes "k \<notin> set (updatable Entities) \<or> \<not> truthy (fld b k)"
      and "category_or (fld b ''category'') (e_category r) = Some new_category"
  shows "fld (JObj (entity_obj
           (r\<lparr>e_entity_name := param env (js_or (fld b ''entity_name'') (Some (e_entity_name r))),
              e_entity_desc := param env (js_or (fld b ''entity_desc'') (Some (e_entity_desc r))),
              e_entity_short_desc :=
                param env (js_or (fld b ''entity_short_desc'') (Some (e_entity_short_desc r))),
              e_category := new_category\<rparr>))) k
         = fld (JObj (entity_obj r)) k"
  using assms
  by (auto simp: fld_def [of "JObj kvs" for kvs] entity_obj_def js_or_def param_def category_or_def
      split: if_splits)

lemma service_update_frame:
  assumes "k \<notin> set (updatable Services) \<or> \<not> truthy (fld b k)"
      and "category_or (fld b ''category'') (s_category r) = Some new_category"
  shows "fld (JObj (service_obj
           (r\<lparr>s_service_name := param env (js_or (fld b ''service_name'') (Some (s_service_name r))),
              s_service_desc := param env (js_or (fld b ''service_desc'') (Some (s_service_desc r))),
              s_min_duration := param env (js_or (fld b ''min_duration'') (Some (s_min_duration r))),
              s_amount := param env (js_or (fld b ''amount'') (Some (s_amount r))),
              s_category := new_category\<rparr>))) k
         = fld (JObj (service_obj r)) k"
  using assms
  by (auto simp: fld_def [of "JObj kvs" for kvs] service_obj_def js_or_def param_def category_or_def
      split: if_splits)

lemma entities_PUT_frame:
  assumes "auth_guard env req = Inr decoded" "parsed_body req = Some b"
      and "status (fst (entities_PUT env req db)) = 200"
      and "distinct (map e_id (entities db))"
  shows "length (entities (snd (entities_PUT env req db))) = length (entities db)"
    and "i < length (entities db) \<Longrightarrow> k \<notin> set (updatable Entities) \<or> \<not> truthy (fld b k) \<Longrightarrow>
           fld (JObj (entity_obj (entities (snd (entities_PUT env req db)) ! i))) k
           = fld (JObj (entity_obj (entities db ! i))) k"
    and "services (snd (entities_PUT env req db)) = services db"
    and "payees (snd (entities_PUT env req db)) = payees db"
    and "subscriptions (snd (entities_PUT env req db)) = subscriptions db"
proof -
  let ?P = "\<lambda>e. sql_eq (e_id e) (param env (fld b ''id''))
                \<and> sql_eq (e_user_id e) (param env (c_user_id decoded))"
  from entities_PUT_200 [OF assms(1-3)] obtain ex rest new_category where
    first: "take (Suc 0) (filter ?P (entities db)) = ex # rest"
    and cat: "category_or (fld b ''category'') (e_category ex) = Some new_category"
    and db': "snd (entities_PUT env req db) =
               db\<lparr>entities :=
                    map (\<lambda>e. if ?P e
                              then e\<lparr>e_entity_name := param env (js_or (fld b ''entity_name'')
                                                                  (Some (e_entity_name ex))),
                                     e_entity_desc := param env (js_or (fld b ''entity_desc'')
                                                                  (Some (e_entity_desc ex))),
                                     e_entity_short_desc :=
                                       param env (js_or (fld b ''entity_short_desc'')
                                                    (Some (e_entity_short_desc ex))),
                                     e_category := new_category\<rparr>
                              else e)
                      (entities db)\<rparr>"
    by blast
  show "length (entities (snd (entities_PUT env req db))) = length (entities db)"
    and "services (snd (entities_PUT env req db)) = services db"
    and "payees (snd (entities_PUT env req db)) = payees db"
    and "subscriptions (snd (entities_PUT env req db)) = subscriptions db"
    unfolding db' by simp_all
  assume i: "i < length (entities db)"
    and k: "k \<notin> set (updatable Entities) \<or> \<not> truthy (fld b k)"
  let ?r = "entities db ! i"
  show "fld (JObj (entity_obj (entities (snd (entities_PUT env req db)) ! i))) k
        = fld (JObj (entity_obj ?r)) k"
  proof (cases "?P ?r")
    case False
    with i have "entities (snd (entities_PUT env req db)) ! i = ?r" unfolding db' by auto
    then show ?thesis by simp
  next
    case True
    from first_match [OF first] have ex: "ex \<in> set (entities db)" "?P ex" by simp_all
    from True ex(2) have "e_id ?r = e_id ex" by (simp add: sql_eq_def)
    with assms(4) i ex(1) have eq: "ex = ?r"
      by (auto intro: distinct_map_eq [of e_id "entities db"])
    from cat have cat': "category_or (fld b ''category'') (e_category ?r) = Some new_category"
      unfolding eq .
    from True i have "entities (snd (entities_PUT env req db)) ! i =
        ?r\<lparr>e_entity_name := param env (js_or (fld b ''entity_name'') (Some (e_entity_name ?r))),
           e_entity_desc := param env (js_or (fld b ''entity_desc'') (Some (e_entity_desc ?r))),
           e_entity_short_desc :=
             param env (js_or (fld b ''entity_short_desc'') (Some (e_entity_short_desc ?r))),
           e_category := new_category\<rparr>"
      unfolding db' eq by simp
    then show ?thesis by (simp only: entity_update_frame [OF k cat'])
  qed
qed

lemma services_PUT_frame:
  assumes "auth_guard env req = Inr decoded" "parsed_body req = Some b"
      and "status (fst (services_PUT env req db)) = 200"
      and "distinct (map s_id (services db))"
  shows "length (services (snd (services_PUT env req db))) = length (services db)"
    and "i < length (services db) \<Longrightarrow> k \<notin> set (updatable Services) \<or> \<not> truthy (fld b k) \<Longrightarrow>
           fld (JObj (service_obj (services (snd (services_PUT env req db)) ! i))) k
           = fld (JObj (service_obj (services db ! i))) k"
    and "entities (snd (services_PUT env req db)) = entities db"
    and "payees (snd (services_PUT env req db)) = payees db"
    and "subscriptions (snd (services_PUT env req db)) = subscriptions db"
proof -
  from services_PUT_200 [OF assms(1-3)] obtain entity :: entity_row and rest0 ex rest new_category where
    first: "take (Suc 0) (filter (\<lambda>r. sql_eq (s_id r) (param env (fld b ''id''))
                                      \<and> sql_eq (s_user_id r) (param env (c_user_id decoded))
                                      \<and> sql_eq (s_entity_id r) (e_id entity))
                             (services db)) = ex # rest"
    and cat: "category_or (fld b ''category'') (s_category ex) = Some new_category"
    and db': "snd (services_PUT env req db) =
               db\<lparr>services :=
                    map (\<lambda>r. if sql_eq (s_id r) (param env (fld b ''id''))
                                 \<and> sql_eq (s_user_id r) (param env (c_user_id decoded))
                                 \<and> sql_eq (s_entity_id r) (e_id entity)
                              then r\<lparr>s_service_name := param env (js_or (fld b ''service_name'')
                                                                   (Some (s_service_name ex))),
                                     s_service_desc := param env (js_or (fld b ''service_desc'')
                                                                   (Some (s_service_desc ex))),
                                     s_min_duration := param env (js_or (fld b ''min_duration'')
                                                                   (Some (s_min_duration ex))),
                                     s_amount := param env (js_or (fld b ''amount'')
                                                             (Some (s_amount ex))),
                                     s_category := new_category\<rparr>
                              else r)
                      (services db)\<rparr>"
    by blast
  let ?P = "\<lambda>r. sql_eq (s_id r) (param env (fld b ''id''))
                \<and> sql_eq (s_user_id r) (param env (c_user_id decoded))
                \<and> sql_eq (s_entity_id r) (e_id entity)"
  show "length (services (snd (services_PUT env req db))) = length (services db)"
    and "entities (snd (services_PUT env req db)) = entities db"
    and "payees (snd (services_PUT env req db)) = payees db"
    and "subscriptions (snd (services_PUT env req db)) = subscriptions db"
    unfolding db' by simp_all
  assume i: "i < length (services db)"
    and k: "k \<notin> set (updatable Services) \<or> \<not> truthy (fld b k)"
  let ?r = "services db ! i"
  show "fld (JObj (service_obj (services (snd (services_PUT env req db)) ! i))) k
        = fld (JObj (service_obj ?r)) k"
  proof (cases "?P ?r")
    case False
    with i have "services (snd (services_PUT env req db)) ! i = ?r" unfolding db' by auto
    then show ?thesis by simp
  next
    case True
    from first_match [OF first] have ex: "ex \<in> set (services db)" "?P ex" by simp_all
    from True ex(2) have "s_id ?r = s_id ex" by (simp add: sql_eq_def)
    with assms(4) i ex(1) have eq: "ex = ?r"
      by (auto intro: distinct_map_eq [of s_id "services db"])
    from cat have cat': "category_or (fld b ''category'') (s_category ?r) = Some new_category"
      unfolding eq .
    from True i have "services (snd (services_PUT env req db)) ! i =
        ?r\<lparr>s_service_name := param env (js_or (fld b ''service_name'') (Some (s_service_name ?r))),
           s_service_desc := param env (js_or (fld b ''service_desc'') (Some (s_service_desc ?r))),
           s_min_duration := param env (js_or (fld b ''min_duration'') (Some (s_min_duration ?r))),
           s_amount := param env (js_or (fld b ''amount'') (Some (s_amount ?r))),
           s_category := new_category\<rparr>"
      unfolding db' eq by simp
    then show ?thesis by (simp only: service_update_frame [OF k cat'])
  qed
qed

lemma entity_update_written:
  assumes "k \<in> set (updatable Entities)" "truthy (fld b k)"
      and "category_or (fld b ''category'') (e_category r) = Some new_category"
  shows "fld (JObj (entity_obj
           (r\<lparr>e_entity_name := param env (js_or (fld b ''entity_name'') (Some (e_entity_name r))),
              e_entity_desc := param env (js_or (fld b ''entity_desc'') (Some (e_entity_desc r))),
              e_entity_short_desc :=
                param env (js_or (fld b ''entity_short_desc'') (Some (e_entity_short_desc r))),
              e_category := new_category\<rparr>))) k
         = (if k = ''category'' then map_option JStr (toLowerCase (fld b k)) else fld b k)"
proof -
  from assms(1) have "k = ''entity_name'' \<or> k = ''entity_desc'' \<or> k = ''entity_short_desc''
    \<or> k = ''category''" by simp
  then show ?thesis
  proof (elim disjE)
    assume k: "k = ''category''"
    with assms(2,3) have "map_option JStr (toLowerCase (fld b ''category'')) = Some new_category"
      by (simp add: category_or_def)
    then show ?thesis unfolding k
      by (auto simp: fld_def [of "JObj kvs" for kvs] entity_obj_def)
  qed (use assms(2) in \<open>simp_all add: fld_def [of "JObj kvs" for kvs] entity_obj_def js_or_def
         truthy_param\<close>)
qed

lemma service_update_written:
  assumes "k \<in> set (updatable Services)" "truthy (fld b k)"
      and "category_or (fld b ''category'') (s_category r) = Some new_category"
  shows "fld (JObj (service_obj
           (r\<lparr>s_service_name := param env (js_or (fld b ''service_name'') (Some (s_service_name r))),
              s_service_desc := param env (js_or (fld b ''service_desc'') (Some (s_service_desc r))),
              s_min_duration := param env (js_or (fld b ''min_duration'') (Some (s_min_duration r))),
              s_amount := param env (js_or (fld b ''amount'') (Some (s_amount r))),
              s_category := new_category\<rparr>))) k
         = (if k = ''category'' then map_option JStr (toLowerCase (fld b k)) else fld b k)"
proof -
  from assms(1) have "k = ''service_name'' \<or> k = ''service_desc'' \<or> k = ''min_duration''
    \<or> k = ''amount'' \<or> k = ''category''" by simp
  then show ?thesis
  proof (elim disjE)
    assume k: "k = ''category''"
    with assms(2,3) have "map_option JStr (toLowerCase (fld b ''category'')) = Some new_category"
      by (simp add: category_or_def)
    then show ?thesis unfolding k
      by (auto simp: fld_def [of "JObj kvs" for kvs] service_obj_def)
  qed (use assms(2) in \<open>simp_all add: fld_def [of "JObj kvs" for kvs] service_obj_def js_or_def
         truthy_param\<close>)
qed

lemma entities_PUT_rows:
  assumes "auth_guard env req = Inr decoded" "parsed_body req = Some b"
      and "status (fst (entities_PUT env req db)) = 200"
      and "distinct (map e_id (entities db))"
      and "i < length (entities db)"
  shows "Some (e_id (entities db ! i)) \<noteq> fld b ''id''
           \<or> e_user_id (entities db ! i) \<noteq> param env (c_user_id decoded) \<Longrightarrow>
         entities (snd (entities_PUT env req db)) ! i = entities db ! i"
    and "Some (e_id (entities db ! i)) = fld b ''id'' \<Longrightarrow>
         e_user_id (entities db ! i) = param env (c_user_id decoded) \<Longrightarrow>
         k \<in> set (updatable Entities) \<Longrightarrow> truthy (fld b k) \<Longrightarrow>
         fld (JObj (entity_obj (entities (snd (entities_PUT env req db)) ! i))) k
         = (if k = ''category'' then map_option JStr (toLowerCase (fld b k)) else fld b k)"
proof -
  let ?P = "\<lambda>e. sql_eq (e_id e) (param env (fld b ''id''))
                \<and> sql_eq (e_user_id e) (param env (c_user_id decoded))"
  let ?r = "entities db ! i"
  from entities_PUT_200 [OF assms(1-3)] obtain ex rest new_category where
    first: "take (Suc 0) (filter ?P (entities db)) = ex # rest"
    and cat: "category_or (fld b ''category'') (e_category ex) = Some new_category"
    and db': "snd (entities_PUT env req db) =
               db\<lparr>entities :=
                    map (\<lambda>e. if ?P e
                              then e\<lparr>e_entity_name := param env (js_or (fld b ''entity_name'')
                                                                  (Some (e_entity_name ex))),
                                     e_entity_desc := param env (js_or (fld b ''entity_desc'')
                                                                  (Some (e_entity_desc ex))),
                                     e_entity_short_desc :=
                                       param env (js_or (fld b ''entity_short_desc'')
                                                    (Some (e_entity_short_desc ex))),
                                     e_category := new_category\<rparr>
                              else e)
                      (entities db)\<rparr>"
    by blast
  have "truthy (fld b ''id'')"
    using required_entities_PUT [OF assms(1,2), of "''id''" db] assms(3) by auto
  then have idv: "Some (param env (fld b ''id'')) = fld b ''id''" by (rule truthy_param)
  from first_match [OF first] have ex: "ex \<in> set (entities db)" "?P ex" by simp_all
  {
    assume "Some (e_id ?r) \<noteq> fld b ''id'' \<or> e_user_id ?r \<noteq> param env (c_user_id decoded)"
    with idv have "\<not> ?P ?r" by (auto simp: sql_eq_def)
    with assms(5) show "entities (snd (entities_PUT env req db)) ! i = ?r"
      unfolding db' by auto
  }
  {
    assume m: "Some (e_id ?r) = fld b ''id''" "e_user_id ?r = param env (c_user_id decoded)"
      and k: "k \<in> set (updatable Entities)" and t: "truthy (fld b k)"
    from trans [OF m(1) idv [symmetric]] have "e_id ?r = param env (fld b ''id'')" by simp
    with ex(2) have "e_id ?r = e_id ex" by (simp add: sql_eq_def)
    with assms(4,5) ex(1) have eq: "ex = ?r"
      by (auto intro: distinct_map_eq [of e_id "entities db"])
    from ex(2) have True: "?P ?r" unfolding eq .
    from cat have cat': "category_or (fld b ''category'') (e_category ?r) = Some new_category"
      unfolding eq .
    from True assms(5) have "entities (snd (entities_PUT env req db)) ! i =
        ?r\<lparr>e_entity_name := param env (js_or (fld b ''entity_name'') (Some (e_entity_name ?r))),
           e_entity_desc := param env (js_or (fld b ''entity_desc'') (Some (e_entity_desc ?r))),
           e_entity_short_desc :=
             param env (js_or (fld b ''entity_short_desc'') (Some (e_entity_short_desc ?r))),
           e_category := new_category\<rparr>"
      unfolding db' eq by simp
    then show "fld (JObj (entity_obj (entities (snd (entities_PUT env req db)) ! i))) k
         = (if k = ''category'' then map_option JStr (toLowerCase (fld b k)) else fld b k)"
      by (simp only: entity_update_written [OF k t cat'])
  }
qed

lemma services_PUT_rows:
  assumes "auth_guard env req = Inr decoded" "parsed_body req = Some b"
      and "status (fst (services_PUT env req db)) = 200"
      and "distinct (map s_id (services db))"
      and "i < length (services db)"
  shows "Some (s_id (services db ! i)) \<noteq> fld b ''id''
           \<or> s_user_id (services db ! i) \<noteq> param env (c_user_id decoded) \<Longrightarrow>
         services (snd (services_PUT env req db)) ! i = services db ! i"
    and "Some (s_id (services db ! i)) = fld b ''id'' \<Longrightarrow>
         s_user_id (services db ! i) = param env (c_user_id decoded) \<Longrightarrow>
         k \<in> set (updatable Services) \<Longrightarrow> truthy (fld b k) \<Longrightarrow>
         fld (JObj (service_obj (services (snd (services_PUT env req db)) ! i))) k
         = (if k = ''category'' then map_option JStr (toLowerCase (fld b k)) else fld b k)"
proof -
  let ?r = "services db ! i"
  from services_PUT_200 [OF assms(1-3)] obtain entity :: entity_row and rest0 ex rest new_category where
    first: "take (Suc 0) (filter (\<lambda>r. sql_eq (s_id r) (param env (fld b ''id''))
                                      \<and> sql_eq (s_user_id r) (param env (c_user_id decoded))
                                      \<and> sql_eq (s_entity_id r) (e_id entity))
                             (services db)) = ex # rest"
    and cat: "category_or (fld b ''category'') (s_category ex) = Some new_category"
    and db': "snd (services_PUT env req db) =
               db\<lparr>services :=
                    map (\<lambda>r. if sql_eq (s_id r) (param env (fld b ''id''))
                                 \<and> sql_eq (s_user_id r) (param env (c_user_id decoded))
                                 \<and> sql_eq (s_entity_id r) (e_id entity)
                              then r\<lparr>s_service_name := param env (js_or (fld b ''service_name'')
                                                                   (Some (s_service_name ex))),
                                     s_service_desc := param env (js_or (fld b ''service_desc'')
                                                                   (Some (s_service_desc ex))),
                                     s_min_duration := param env (js_or (fld b ''min_duration'')
                                                                   (Some (s_min_duration ex))),
                                     s_amount := param env (js_or (fld b ''amount'')
                                                             (Some (s_amount ex))),
                                     s_category := new_category\<rparr>
                              else r)
                      (services db)\<rparr>"
    by blast
  let ?P = "\<lambda>r. sql_eq (s_id r) (param env (fld b ''id''))
                \<and> sql_eq (s_user_id r) (param env (c_user_id decoded))
                \<and> sql_eq (s_entity_id r) (e_id entity)"
  have "truthy (fld b ''id'')"
    using required_services_PUT [OF assms(1,2), of "''id''" db] assms(3) by auto
  then have idv: "Some (param env (fld b ''id'')) = fld b ''id''" by (rule truthy_param)
  from first_match [OF first] have ex: "ex \<in> set (services db)" "?P ex" by simp_all
  {
    assume "Some (s_id ?r) \<noteq> fld b ''id'' \<or> s_user_id ?r \<noteq> param env (c_user_id decoded)"
    with idv have "\<not> ?P ?r" by (auto simp: sql_eq_def)
    with assms(5) show "services (snd (services_PUT env req db)) ! i = ?r"
      unfolding db' by auto
  }
  {
    assume m: "Some (s_id ?r) = fld b ''id''" "s_user_id ?r = param env (c_user_id decoded)"
      and k: "k \<in> set (updatable Services)" and t: "truthy (fld b k)"
    from trans [OF m(1) idv [symmetric]] have "s_id ?r = param env (fld b ''id'')" by simp
    with ex(2) have "s_id ?r = s_id ex" by (simp add: sql_eq_def)
    with assms(4,5) ex(1) have eq: "ex = ?r"
      by (auto intro: distinct_map_eq [of s_id "services db"])
    from ex(2) have True: "?P ?r" unfolding eq .
    from cat have cat': "category_or (fld b ''category'') (s_category ?r) = Some new_category"
      unfolding eq .
    from True assms(5) have "services (snd (services_PUT env req db)) ! i =
        ?r\<lparr>s_service_name := param env (js_or (fld b ''service_name'') (Some (s_service_name ?r))),
           s_service_desc := param env (js_or (fld b ''service_desc'') (Some (s_service_desc ?r))),
           s_min_duration := param env (js_or (fld b ''min_duration'') (Some (s_min_duration ?r))),
           s_amount := param env (js_or (fld b ''amount'') (Some (s_amount ?r))),
           s_category := new_category\<rparr>"
      unfolding db' eq by simp
    then show "fld (JObj (service_obj (services (snd (services_PUT env req db)) ! i))) k
         = (if k = ''category'' then map_option JStr (toLowerCase (fld b k)) else fld b k)"
      by (simp only: service_update_written [OF k t cat'])
  }
qed

lemma obj_id [simp]:
  "cell ''id'' (entity_obj e) = Some (e_id e)"
  "cell ''id'' (service_obj s) = Some (s_id s)"
  by (simp_all add: cell_def fld_def entity_obj_def service_obj_def)

lemma entities_PUT_target:
  assumes "auth_guard env req = Inr decoded" "parsed_body req = Some b"
      and "status (fst (entities_PUT env req db)) = 200"
  shows "\<exists>i < length (entities db). Some (e_id (entities db ! i)) = fld b ''id''
           \<and> e_user_id (entities db ! i) = param env (c_user_id decoded)"
proof -
  from entities_PUT_200 [OF assms] obtain ex rest where
    first: "take (Suc 0) (filter (\<lambda>e. sql_eq (e_id e) (param env (fld b ''id''))
                                    \<and> sql_eq (e_user_id e) (param env (c_user_id decoded)))
                           (entities db)) = ex # rest"
    by blast
  have "truthy (fld b ''id'')"
    using required_entities_PUT [OF assms(1,2), of "''id''" db] assms(3) by auto
  then have idv: "Some (param env (fld b ''id'')) = fld b ''id''" by (rule truthy_param)
  from first_match [OF first] have ex: "ex \<in> set (entities db)"
    "e_id ex = param env (fld b ''id'')" "e_user_id ex = param env (c_user_id decoded)"
    by (simp_all add: sql_eq_def)
  from ex(1) obtain i where "i < length (entities db)" "entities db ! i = ex"
    by (auto simp: in_set_conv_nth)
  with ex(2,3) idv show ?thesis by auto
qed

lemma services_PUT_target:
  assumes "auth_guard env req = Inr decoded" "parsed_body req = Some b"
      and "status (fst (services_PUT env req db)) = 200"
  shows "\<exists>i < length (services db). Some (s_id (services db ! i)) = fld b ''id''
           \<and> s_user_id (services db ! i) = param env (c_user_id decoded)"
proof -
  from services_PUT_200 [OF assms] obtain entity :: entity_row and ex rest where
    first: "take (Suc 0) (filter (\<lambda>r. sql_eq (s_id r) (param env (fld b ''id''))
                                      \<and> sql_eq (s_user_id r) (param env (c_user_id decoded))
                                      \<and> sql_eq (s_entity_id r) (e_id entity))
                             (services db)) = ex # rest"
    by blast
  have "truthy (fld b ''id'')"
    using required_services_PUT [OF assms(1,2), of "''id''" db] assms(3) by auto
  then have idv: "Some (param env (fld b ''id'')) = fld b ''id''" by (rule truthy_param)
  from first_match [OF first] have ex: "ex \<in> set (services db)"
    "s_id ex = param env (fld b ''id'')" "s_user_id ex = param env (c_user_id decoded)"
    by (simp_all add: sql_eq_def)
  from ex(1) obtain i where "i < length (services db)" "services db ! i = ex"
    by (auto simp: in_set_conv_nth)
  with ex(2,3) idv show ?thesis by auto
qed

lemma entities_PUT_table:
  assumes "auth_guard env req = Inr decoded" "parsed_body req = Some b"
      and "status (fst (handle (Resource Entities PUT) env req db)) = 200"
      and "distinct (ids Entities db)"
  shows "length (table_rows Entities (snd (handle (Resource Entities PUT) env req db)))
           = length (table_rows Entities db)
       \<and> (\<forall>i k. i < length (table_rows Entities db)
                  \<and> (k \<notin> set (updatable Entities) \<or> \<not> truthy (fld b k)) \<longrightarrow>
            fld (JObj (table_rows Entities (snd (handle (Resource Entities PUT) env req db)) ! i)) k
            = fld (JObj (table_rows Entities db ! i)) k)
       \<and> (\<forall>res'. res' \<noteq> Entities \<longrightarrow>
            table_rows res' (snd (handle (Resource Entities PUT) env req db)) = table_rows res' db)
       \<and> (\<forall>i. i < length (table_rows Entities db)
                \<and> (cell ''id'' (table_rows Entities db ! i) \<noteq> fld b ''id''
                   \<or> cell ''user_id'' (table_rows Entities db ! i)
                      \<noteq> Some (param env (c_user_id decoded))) \<longrightarrow>
            table_rows Entities (snd (handle (Resource Entities PUT) env req db)) ! i
            = table_rows Entities db ! i)
       \<and> (\<forall>i k. i < length (table_rows Entities db)
                  \<and> cell ''id'' (table_rows Entities db ! i) = fld b ''id''
                  \<and> cell ''user_id'' (table_rows Entities db ! i)
                     = Some (param env (c_user_id decoded))
                  \<and> k \<in> set (updatable Entities) \<and> truthy (fld b k) \<longrightarrow>
            cell k (table_rows Entities (snd (handle (Resource Entities PUT) env req db)) ! i)
            = (if k = ''category'' then map_option JStr (toLowerCase (fld b k)) else fld b k))
       \<and> (\<exists>i < length (table_rows Entities db).
            cell ''id'' (table_rows Entities db ! i) = fld b ''id''
            \<and> cell ''user_id'' (table_rows Entities db ! i) = Some (param env (c_user_id decoded)))"
proof -
  from assms(3,4) have st: "status (fst (entities_PUT env req db)) = 200"
    and d: "distinct (map e_id (entities db))" by simp_all
  note f = entities_PUT_frame [OF assms(1,2) st d]
  note r = entities_PUT_rows [OF assms(1,2) st d]
  note t = entities_PUT_target [OF assms(1,2) st]
  have c1: "length (table_rows Entities (snd (handle (Resource Entities PUT) env req db)))
           = length (table_rows Entities db)"
    using f(1) by simp
  have c2: "\<forall>i k. i < length (table_rows Entities db)
                  \<and> (k \<notin> set (updatable Entities) \<or> \<not> truthy (fld b k)) \<longrightarrow>
            fld (JObj (table_rows Entities (snd (handle (Resource Entities PUT) env req db)) ! i)) k
            = fld (JObj (table_rows Entities db ! i)) k"
    using f(1,2) by simp
  have c3: "\<forall>res'. res' \<noteq> Entities \<longrightarrow>
            table_rows res' (snd (handle (Resource Entities PUT) env req db)) = table_rows res' db"
  proof (intro allI impI)
    fix res' :: resource assume "res' \<noteq> Entities"
    then show "table_rows res' (snd (handle (Resource Entities PUT) env req db))
               = table_rows res' db"
      using f(3-5) by (cases res') simp_all
  qed
  have c4: "\<forall>i. i < length (table_rows Entities db)
                \<and> (cell ''id'' (table_rows Entities db ! i) \<noteq> fld b ''id''
                   \<or> cell ''user_id'' (table_rows Entities db ! i)
                      \<noteq> Some (param env (c_user_id decoded))) \<longrightarrow>
            table_rows Entities (snd (handle (Resource Entities PUT) env req db)) ! i
            = table_rows Entities db ! i"
  proof (intro allI impI, elim conjE)
    fix i assume "i < length (table_rows Entities db)"
      and n: "cell ''id'' (table_rows Entities db ! i) \<noteq> fld b ''id''
              \<or> cell ''user_id'' (table_rows Entities db ! i)
                 \<noteq> Some (param env (c_user_id decoded))"
    then have i: "i < length (entities db)" by simp
    with n have "Some (e_id (entities db ! i)) \<noteq> fld b ''id''
                 \<or> e_user_id (entities db ! i) \<noteq> param env (c_user_id decoded)" by simp
    from r(1) [OF i this] i f(1)
    show "table_rows Entities (snd (handle (Resource Entities PUT) env req db)) ! i
          = table_rows Entities db ! i" by simp
  qed
  have c5: "\<forall>i k. i < length (table_rows Entities db)
                  \<and> cell ''id'' (table_rows Entities db ! i) = fld b ''id''
                  \<and> cell ''user_id'' (table_rows Entities db ! i)
                     = Some (param env (c_user_id decoded))
                  \<and> k \<in> set (updatable Entities) \<and> truthy (fld b k) \<longrightarrow>
            cell k (table_rows Entities (snd (handle (Resource Entities PUT) env req db)) ! i)
            = (if k = ''category'' then map_option JStr (toLowerCase (fld b k)) else fld b k)"
  proof (intro allI impI, elim conjE)
    fix i k assume "i < length (table_rows Entities db)"
      and m: "cell ''id'' (table_rows Entities db ! i) = fld b ''id''"
        "cell ''user_id'' (table_rows Entities db ! i) = Some (param env (c_user_id decoded))"
      and k: "k \<in> set (updatable Entities)" "truthy (fld b k)"
    then have i: "i < length (entities db)" by simp
    with m have m': "Some (e_id (entities db ! i)) = fld b ''id''"
      "e_user_id (entities db ! i) = param env (c_user_id decoded)" by simp_all
    from r(2) [OF i m' k] i f(1)
    show "cell k (table_rows Entities (snd (handle (Resource Entities PUT) env req db)) ! i)
          = (if k = ''category'' then map_option JStr (toLowerCase (fld b k)) else fld b k)"
      by (simp add: cell_def)
  qed
  have c6: "\<exists>i < length (table_rows Entities db).
            cell ''id'' (table_rows Entities db ! i) = fld b ''id''
            \<and> cell ''user_id'' (table_rows Entities db ! i) = Some (param env (c_user_id decoded))"
    using t by auto
  show ?thesis by (intro conjI c1 c2 c3 c4 c5 c6)
qed

lemma services_PUT_table:
  assumes "auth_guard env req = Inr decoded" "parsed_body req = Some b"
      and "status (fst (handle (Resource Services PUT) env req db)) = 200"
      and "distinct (ids Services db)"
  shows "length (table_rows Services (snd (handle (Resource Services PUT) env req db)))
           = length (table_rows Services db)
       \<and> (\<forall>i k. i < length (table_rows Services db)
                  \<and> (k \<notin> set (updatable Services) \<or> \<not> truthy (fld b k)) \<longrightarrow>
            fld (JObj (table_rows Services (snd (handle (Resource Services PUT) env req db)) ! i)) k
            = fld (JObj (table_rows Services db ! i)) k)
       \<and> (\<forall>res'. res' \<noteq> Services \<longrightarrow>
            table_rows res' (snd (handle (Resource Services PUT) env req db)) = table_rows res' db)
       \<and> (\<forall>i. i < length (table_rows Services db)
                \<and> (cell ''id'' (table_rows Services db ! i) \<noteq> fld b ''id''
                   \<or> cell ''user_id'' (table_rows Services db ! i)
                      \<noteq> Some (param env (c_user_id decoded))) \<longrightarrow>
            table_rows Services (snd (handle (Resource Services PUT) env req db)) ! i
            = table_rows Services db ! i)
       \<and> (\<forall>i k. i < length (table_rows Services db)
                  \<and> cell ''id'' (table_rows Services db ! i) = fld b ''id''
                  \<and> cell ''user_id'' (table_rows Services db ! i)
                     = Some (param env (c_user_id decoded))
                  \<and> k \<in> set (updatable Services) \<and> truthy (fld b k) \<longrightarrow>
            cell k (table_rows Services (snd (handle (Resource Services PUT) env req db)) ! i)
            = (if k = ''category'' then map_option JStr (toLowerCase (fld b k)) else fld b k))
       \<and> (\<exists>i < length (table_rows Services db).
            cell ''id'' (table_rows Services db ! i) = fld b ''id''
            \<and> cell ''user_id'' (table_rows Services db ! i) = Some (param env (c_user_id decoded)))"
proof -
  from assms(3,4) have st: "status (fst (services_PUT env req db)) = 200"
    and d: "distinct (map s_id (services db))" by simp_all
  note f = services_PUT_frame [OF assms(1,2) st d]
  note r = services_PUT_rows [OF assms(1,2) st d]
  note t = services_PUT_target [OF assms(1,2) st]
  have c1: "length (table_rows Services (snd (handle (Resource Services PUT) env req db)))
           = length (table_rows Services db)"
    using f(1) by simp
  have c2: "\<forall>i k. i < length (table_rows Services db)
                  \<and> (k \<notin> set (updatable Services) \<or> \<not> truthy (fld b k)) \<longrightarrow>
            fld (JObj (table_rows Services (snd (handle (Resource Services PUT) env req db)) ! i)) k
            = fld (JObj (table_rows Services db ! i)) k"
    using f(1,2) by simp
  have c3: "\<forall>res'. res' \<noteq> Services \<longrightarrow>
            table_rows res' (snd (handle (Resource Services PUT) env req db)) = table_rows res' db"
  proof (intro allI impI)
    fix res' :: resource assume "res' \<noteq> Services"
    then show "table_rows res' (snd (handle (Resource Services PUT) env req db))
               = table_rows res' db"
      using f(3-5) by (cases res') simp_all
  qed
  have c4: "\<forall>i. i < length (table_rows Services db)
                \<and> (cell ''id'' (table_rows Services db ! i) \<noteq> fld b ''id''
                   \<or> cell ''user_id'' (table_rows Services db ! i)
                      \<noteq> Some (param env (c_user_id decoded))) \<longrightarrow>
            table_rows Services (snd (handle (Resource Services PUT) env req db)) ! i
            = table_rows Services db ! i"
  proof (intro allI impI, elim conjE)
    fix i assume "i < length (table_rows Services db)"
      and n: "cell ''id'' (table_rows Services db ! i) \<noteq> fld b ''id''
              \<or> cell ''user_id'' (table_rows Services db ! i)
                 \<noteq> Some (param env (c_user_id decoded))"
    then have i: "i < length (services db)" by simp
    with n have "Some (s_id (services db ! i)) \<noteq> fld b ''id''
                 \<or> s_user_id (services db ! i) \<noteq> param env (c_user_id decoded)" by simp
    from r(1) [OF i this] i f(1)
    show "table_rows Services (snd (handle (Resource Services PUT) env req db)) ! i
          = table_rows Services db ! i" by simp
  qed
  have c5: "\<forall>i k. i < length (table_rows Services db)
                  \<and> cell ''id'' (table_rows Services db ! i) = fld b ''id''
                  \<and> cell ''user_id'' (table_rows Services db ! i)
                     = Some (param env (c_user_id decoded))
                  \<and> k \<in> set (updatable Services) \<and> truthy (fld b k) \<longrightarrow>
            cell k (table_rows Services (snd (handle (Resource Services PUT) env req db)) ! i)
            = (if k = ''category'' then map_option JStr (toLowerCase (fld b k)) else fld b k)"
  proof (intro allI impI, elim conjE)
    fix i k assume "i < length (table_rows Services db)"
      and m: "cell ''id'' (table_rows Services db ! i) = fld b ''id''"
        "cell ''user_id'' (table_rows Services db ! i) = Some (param env (c_user_id decoded))"
      and k: "k \<in> set (updatable Services)" "truthy (fld b k)"
    then have i: "i < length (services db)" by simp
    with m have m': "Some (s_id (services db ! i)) = fld b ''id''"
      "s_user_id (services db ! i) = param env (c_user_id decoded)" by simp_all
    from r(2) [OF i m' k] i f(1)
    show "cell k (table_rows Services (snd (handle (Resource Services PUT) env req db)) ! i)
          = (if k = ''category'' then map_option JStr (toLowerCase (fld b k)) else fld b k)"
      by (simp add: cell_def)
  qed
  have c6: "\<exists>i < length (table_rows Services db).
            cell ''id'' (table_rows Services db ! i) = fld b ''id''
            \<and> cell ''user_id'' (table_rows Services db ! i) = Some (param env (c_user_id decoded))"
    using t by auto
  show ?thesis by (intro conjI c1 c2 c3 c4 c5 c6)
qed

text \<open>
  C4, amended: a successful PUT on an Entity or a Service, in a table whose ids
  are unique, updates only the row with the body's id that the subject owns, and
  there is one.  The table has the rows it had, in the same places; every other
  row is as it was; in the row updated, each column the PUT sets and the body
  supplies a truthy value for has that value (the category lowercased), and every
  other column keeps its stored value.  The other tables are unchanged.
\<close>

theorem put_keeps_omitted_fields:
  assumes "res = Entities \<or> res = Services"
      and "auth_guard env req = Inr decoded" "parsed_body req = Some b"
      and "status (fst (handle (Resource res PUT) env req db)) = 200"
      and "distinct (ids res db)"
  shows "length (table_rows res (snd (handle (Resource res PUT) env req db)))
           = length (table_rows res db)
       \<and> (\<forall>i k. i < length (table_rows res db)
                  \<and> (k \<notin> set (updatable res) \<or> \<not> truthy (fld b k)) \<longrightarrow>
            fld (JObj (table_rows res (snd (handle (Resource res PUT) env req db)) ! i)) k
            = fld (JObj (table_rows res db ! i)) k)
       \<and> (\<forall>res'. res' \<noteq> res \<longrightarrow>
            table_rows res' (snd (handle (Resource res PUT) env req db)) = table_rows res' db)
       \<and> (\<forall>i. i < length (table_rows res db)
                \<and> (cell ''id'' (table_rows res db ! i) \<noteq> fld b ''id''
                   \<or> cell ''user_id'' (table_rows res db ! i)
                      \<noteq> Some (param env (c_user_id decoded))) \<longrightarrow>
            table_rows res (snd (handle (Resource res PUT) env req db)) ! i
            = table_rows res db ! i)
       \<and> (\<forall>i k. i < length (table_rows res db)
                  \<and> cell ''id'' (table_rows res db ! i) = fld b ''id''
                  \<and> cell ''user_id'' (table_rows res db ! i)
                     = Some (param env (c_user_id decoded))
                  \<and> k \<in> set (updatable res) \<and> truthy (fld b k) \<longrightarrow>
            cell k (table_rows res (snd (handle (Resource res PUT) env req db)) ! i)
            = (if k = ''category'' then map_option JStr (toLowerCase (fld b k)) else fld b k))
       \<and> (\<exists>i < length (table_rows res db).
            cell ''id'' (table_rows res db ! i) = fld b ''id''
            \<and> cell ''user_id'' (table_rows res db ! i) = Some (param env (c_user_id decoded)))"
  using assms(1)
proof
  assume res: "res = Entities"
  from entities_PUT_table [OF assms(2,3) assms(4,5) [unfolded res]]
  show ?thesis unfolding res .
next
  assume res: "res = Services"
  from services_PUT_table [OF assms(2,3) assms(4,5) [unfolded res]]
  show ?thesis unfolding res .
qed

theorem put_keeps_omitted_fields_witness:
  "distinct (ids Entities demo_db)
   \<and> fld (JObj [(''id'', JNum 1), (''entity_name'', JStr ''Acme Ltd''),
                (''entity_desc'', JStr ''d2''), (''entity_short_desc'', JStr ''s2'')])
        ''category'' = None
   \<and> status (fst (handle (Resource Entities PUT) demo_env
        (alice (JObj [(''id'', JNum 1), (''entity_name'', JStr ''Acme Ltd''),
                      (''entity_desc'', JStr ''d2''), (''entity_short_desc'', JStr ''s2'')]))
        demo_db)) = 200
   \<and> map e_category (entities (snd (handle (Resource Entities PUT) demo_env
        (alice (JObj [(''id'', JNum 1), (''entity_name'', JStr ''Acme Ltd''),
                      (''entity_desc'', JStr ''d2''), (''entity_short_desc'', JStr ''s2'')]))
        demo_db))) = [JStr ''income'', JStr ''expense'']
   \<and> map e_entity_name (entities (snd (handle (Resource Entities PUT) demo_env
        (alice (JObj [(''id'', JNum 1), (''entity_name'', JStr ''Acme Ltd''),
                      (''entity_desc'', JStr ''d2''), (''entity_short_desc'', JStr ''s2'')]))
        demo_db))) = [JStr ''Acme Ltd'', JStr ''Globex'']
   \<and> map e_entity_desc (entities (snd (handle (Resource Entities PUT) demo_env
        (alice (JObj [(''id'', JNum 1), (''entity_name'', JStr ''Acme Ltd''),
                      (''entity_desc'', JStr ''d2''), (''entity_short_desc'', JStr ''s2'')]))
        demo_db))) = [JStr ''d2'', JStr ''g'']"
  using put_keeps_omitted_fields [of Entities demo_env
      "alice (JObj [(''id'', JNum 1), (''entity_name'', JStr ''Acme Ltd''),
                    (''entity_desc'', JStr ''d2''), (''entity_short_desc'', JStr ''s2'')])"
      alice_claims
      "JObj [(''id'', JNum 1), (''entity_name'', JStr ''Acme Ltd''),
             (''entity_desc'', JStr ''d2''), (''entity_short_desc'', JStr ''s2'')]"
      demo_db]
  by (simp add: entities_PUT_def run_defs)

end
